theory Spec2Isabelle
  imports Complex_Main "HOL-Library.Product_Lexorder" "HOL-Library.Multiset"
begin

section \<open>Launcher of trading strategies: data model\<close>

text \<open>
  The program is the script \<^verbatim>\<open>main_pandas.py\<close>. It loads one price file per ticker into
  a shared pool of datasets, holds a registry (\<^verbatim>\<open>mapping\<close>) from strategy names to their
  settings, and dispatches every strategy named on the command line either to the live
  trader or to a backtest.

  A \<^verbatim>\<open>datetime.datetime\<close> is the tuple (year, month, day, hour, minute, second), ordered
  lexicographically, which is the chronological order. Floats (clock readings, prices)
  are real numbers.
\<close>

type_synonym datetime = "nat \<times> nat \<times> nat \<times> nat \<times> nat \<times> nat"

record asset =
  symbol :: string
  asset_type :: string

text \<open>A cell of a parsed CSV file.\<close>

datatype cell = DateCell datetime | NumCell real | TextCell string

text \<open>A \<^verbatim>\<open>pandas.DataFrame\<close> indexed by timestamps: every row is its index value and its
  values in the order of \<open>columns\<close>.\<close>

record frame =
  index_name :: string
  columns :: "string list"
  rows :: "(datetime \<times> cell list) list"

text \<open>The object \<^verbatim>\<open>lumibot.entities.Data\<close>; \<open>strategy\<close> is its mutable label.\<close>

record data =
  strategy :: string
  asset :: asset
  df :: frame
  date_start :: datetime
  date_end :: datetime
  timestep :: string

type_synonym pool = "(asset \<times> data) list"

text \<open>
  Values stored in the entries of the registry. \<open>PClass\<close> is a class object, given by its
  \<^verbatim>\<open>__name__\<close>; \<open>PPool\<close> is the reference to the one shared dictionary
  \<^verbatim>\<open>pandas_data\<close> built at startup (every entry that binds it holds the same object).
\<close>

datatype pyval =
    PNone
  | PBool bool
  | PClass string
  | PAssets "asset list"
  | PDict "(string \<times> pyval) list"
  | PPool

type_synonym entry = "(string \<times> pyval) list"

datatype broker = Alpaca string

text \<open>A strategy object built on the live path, by the arguments of its constructor.\<close>

record strategy_instance =
  i_class :: string
  i_name :: string
  i_budget :: int
  i_broker :: broker
  i_stats_file :: string
  i_kwargs :: "(string \<times> pyval) list"

text \<open>The arguments of one call of \<^verbatim>\<open>strategy_class.backtest\<close>.\<close>

record backtest_call =
  b_class :: string
  b_name :: string
  b_budget :: int
  b_datasource :: pyval
  b_start :: datetime
  b_end :: datetime
  b_pandas_data :: pool
  b_stats_file :: string
  b_config :: pyval
  b_kwargs :: "(string \<times> pyval) list"

text \<open>
  Every interaction of the script with the outside, in the order it happens: readings of
  the two clocks, calls of the collaborators (strategy constructor, trader, backtest
  entry point, benchmark calculator), and what is printed or logged.
\<close>

datatype event =
    Time real
  | PerfCounter real
  | Construct strategy_instance
  | AddStrategy strategy_instance
  | Backtest backtest_call
  | PrintElapsed real
  | LogInfo string
  | CalculateReturns string datetime datetime
  | RunAll "strategy_instance list"
  | PrintCount string real

datatype error =
    ValueError string
  | KeyError string
  | AttributeError string string
  | TypeError string
  | IndexError
  | Downstream event

text \<open>
  The state the script mutates: the labels of the shared pool, the strategies registered
  with the trader, and the log of interactions so far.
\<close>

record state =
  pool :: pool
  registered :: "strategy_instance list"
  trace :: "event list"

datatype outcome = Ok state | Fail error state

text \<open>
  The outside world. The reading of a clock and the fate of a collaborator's call are
  given per position in the log: \<open>time_at env k\<close> is what \<^verbatim>\<open>time()\<close> returns when it is the
  \<open>k\<close>-th interaction, \<open>perf_at env k\<close> likewise for \<^verbatim>\<open>perf_counter()\<close>, and \<open>raises env k\<close>
  says that the collaborator called as \<open>k\<close>-th interaction raises instead of returning.
  \<open>counters env\<close> is \<^verbatim>\<open>perf_counters.counters\<close> as read at shutdown.
\<close>

record env =
  time_at :: "nat \<Rightarrow> real"
  perf_at :: "nat \<Rightarrow> real"
  raises :: "nat \<Rightarrow> bool"
  counters :: "(string \<times> real list) list"

section \<open>Global parameters\<close>

definition budget :: int where
  "budget = 40000"

definition backtesting_start :: datetime where
  "backtesting_start = (2019, 2, 28, 0, 0, 0)"

definition backtesting_end :: datetime where
  "backtesting_end = (2019, 12, 1, 0, 0, 0)"

definition alpaca_broker :: broker where
  "alpaca_broker = Alpaca ''AlpacaConfig''"

definition benchmark_asset :: string where
  "benchmark_asset = ''SPY''"

definition tickers :: "string list" where
  "tickers = [''SPY'', ''DJP'', ''TLT'', ''GLD'', ''IEF'']"

section \<open>Loading the price files\<close>

text \<open>
  \<^verbatim>\<open>pd.read_csv(path, parse_dates=True, index_col=0, header=0, usecols=..., names=...)\<close>.
  The file is its rows of cells, the header row first. The header row is read and replaced
  by \<open>names\<close>; of every other row the cells at the positions \<open>usecols\<close> are kept, the first
  of them becomes the index and must be a date. A file without a header row, or a row that
  lacks a kept position or whose index is no date, makes the load fail.
\<close>

definition parse_row :: "nat list \<Rightarrow> cell list \<Rightarrow> (datetime \<times> cell list) option" where
  "parse_row usecols r =
     (if list_all (\<lambda>i. i < length r) usecols
      then (case map (\<lambda>i. r ! i) usecols of
              DateCell d # vs \<Rightarrow> Some (d, vs)
            | _ \<Rightarrow> None)
      else None)"

fun parse_rows :: "nat list \<Rightarrow> cell list list \<Rightarrow> (datetime \<times> cell list) list option" where
  "parse_rows usecols [] = Some []"
| "parse_rows usecols (r # rs) =
     (case parse_row usecols r of
        None \<Rightarrow> None
      | Some x \<Rightarrow> (case parse_rows usecols rs of None \<Rightarrow> None | Some xs \<Rightarrow> Some (x # xs)))"

definition read_csv :: "cell list list \<Rightarrow> nat list \<Rightarrow> string list \<Rightarrow> frame option" where
  "read_csv file usecols names =
     (case file of
        [] \<Rightarrow> None
      | header # body \<Rightarrow>
          (case names of
             [] \<Rightarrow> None
           | n # ns \<Rightarrow>
               if length names \<noteq> length usecols then None
               else (case parse_rows usecols body of
                       None \<Rightarrow> None
                     | Some rs \<Rightarrow> Some \<lparr>index_name = n, columns = ns, rows = rs\<rparr>)))"

text \<open>\<^verbatim>\<open>df.rename(columns=m)\<close>: a column named in \<open>m\<close> takes its new name; the index is
  not a column and keeps its name.\<close>

definition rename_columns :: "(string \<times> string) list \<Rightarrow> frame \<Rightarrow> frame" where
  "rename_columns m f =
     f\<lparr>columns := map (\<lambda>c. case map_of m c of None \<Rightarrow> c | Some c' \<Rightarrow> c') (columns f)\<rparr>"

text \<open>\<^verbatim>\<open>df[[c1, ..., cn]]\<close>: the named columns in the order asked; a name that is no
  column is a \<^verbatim>\<open>KeyError\<close>. A name that occurs several times selects its first column.\<close>

fun index_of :: "string \<Rightarrow> string list \<Rightarrow> nat option" where
  "index_of c [] = None"
| "index_of c (x # xs) =
     (if x = c then Some 0 else (case index_of c xs of None \<Rightarrow> None | Some i \<Rightarrow> Some (Suc i)))"

fun positions :: "string list \<Rightarrow> string list \<Rightarrow> nat list option" where
  "positions [] cols = Some []"
| "positions (c # cs) cols =
     (case index_of c cols of
        None \<Rightarrow> None
      | Some i \<Rightarrow> (case positions cs cols of None \<Rightarrow> None | Some js \<Rightarrow> Some (i # js)))"

definition select_columns :: "string list \<Rightarrow> frame \<Rightarrow> frame option" where
  "select_columns cs f =
     (case positions cs (columns f) of
        None \<Rightarrow> None
      | Some js \<Rightarrow>
          Some (f\<lparr>columns := cs,
                  rows := map (\<lambda>(d, vs). (d, map (\<lambda>j. vs ! j) js)) (rows f)\<rparr>))"

definition set_index_name :: "string \<Rightarrow> frame \<Rightarrow> frame" where
  "set_index_name n f = f\<lparr>index_name := n\<rparr>"

text \<open>
  Modelled from the spec: the constructor of \<^verbatim>\<open>lumibot.entities.Data\<close>, which is not among
  the sources. The spec says of the loaded dataset that it is sorted ascending by date and
  restricted to the horizon \<open>[date_start, date_end]\<close>, and that the timestep label is passed
  through. The sort is the stable insertion sort on the index.
\<close>

definition Data :: "string \<Rightarrow> asset \<Rightarrow> frame \<Rightarrow> datetime \<Rightarrow> datetime \<Rightarrow> string \<Rightarrow> data" where
  "Data strat a f ds de ts =
     \<lparr>strategy = strat, asset = a,
      df = f\<lparr>rows := filter (\<lambda>r. ds \<le> fst r \<and> fst r \<le> de) (sort_key fst (rows f))\<rparr>,
      date_start = ds, date_end = de, timestep = ts\<rparr>"

text \<open>The body of the startup loop for one ticker; \<open>files\<close> maps a path to the file there.\<close>

definition load_ticker :: "(string \<rightharpoonup> cell list list) \<Rightarrow> string \<Rightarrow> (asset \<times> data) option" where
  "load_ticker files ticker =
     (let a = \<lparr>symbol = ticker, asset_type = ''stock''\<rparr> in
      case files (''data/'' @ ticker @ ''.csv'') of
        None \<Rightarrow> None
      | Some file \<Rightarrow>
          (case read_csv file [0, 1, 2, 3, 4, 6]
                  [''Date'', ''Open'', ''High'', ''Low'', ''Close'', ''Volume''] of
             None \<Rightarrow> None
           | Some f0 \<Rightarrow>
               (let f1 = rename_columns
                           [(''Date'', ''date''), (''Open'', ''open''), (''High'', ''high''),
                            (''Low'', ''low''), (''Close'', ''close''), (''Volume'', ''volume'')] f0
                in case select_columns [''open'', ''high'', ''low'', ''close'', ''volume''] f1 of
                     None \<Rightarrow> None
                   | Some f2 \<Rightarrow>
                       Some (a, Data ''my_strategy'' a (set_index_name ''datetime'' f2)
                                  (2019, 1, 6, 0, 0, 0) (2019, 12, 15, 0, 0, 0) ''day''))))"

text \<open>\<^verbatim>\<open>pandas_data[asset] = data\<close>: a key already there keeps its place and takes the
  new value.\<close>

fun dict_set :: "asset \<Rightarrow> data \<Rightarrow> pool \<Rightarrow> pool" where
  "dict_set k v [] = [(k, v)]"
| "dict_set k v ((k', v') # kvs) = (if k' = k then (k, v) # kvs else (k', v') # dict_set k v kvs)"

fun load_all :: "(string \<rightharpoonup> cell list list) \<Rightarrow> string list \<Rightarrow> pool \<Rightarrow> pool option" where
  "load_all files [] pandas_data = Some pandas_data"
| "load_all files (ticker # ts) pandas_data =
     (case load_ticker files ticker of
        None \<Rightarrow> None
      | Some (a, d) \<Rightarrow> load_all files ts (dict_set a d pandas_data))"

section \<open>The registry of strategies\<close>

text \<open>\<^verbatim>\<open>list(pandas_data)\<close>: the keys of the pool, one asset per ticker in the order loaded.\<close>

definition pool_symbols :: "asset list" where
  "pool_symbols = map (\<lambda>t. \<lparr>symbol = t, asset_type = ''stock''\<rparr>) tickers"

definition mapping :: "(string \<times> entry) list" where
  "mapping =
     [(''momentum_pandas'',
         [(''class'', PClass ''Momentum''),
          (''backtesting_datasource'', PClass ''PandasDataBacktesting''),
          (''kwargs'', PDict [(''symbols'', PAssets pool_symbols)]),
          (''config'', PNone),
          (''pandas_data'', PPool)]),
      (''diversification'',
         [(''class'', PClass ''Diversification''),
          (''backtesting_datasource'', PClass ''PandasDataBacktesting''),
          (''kwargs'', PDict []),
          (''config'', PNone),
          (''pandas_data'', PPool)]),
      (''debt_trading'',
         [(''class'', PClass ''DebtTrading''),
          (''backtesting_datasource'', PClass ''YahooDataBacktesting''),
          (''kwargs'', PDict []),
          (''config'', PNone),
          (''pandas_data'', PNone)]),
      (''intraday_momentum'',
         [(''class'', PClass ''IntradayMomentum''),
          (''backtesting_datasource'', PNone),
          (''kwargs'', PDict []),
          (''config'', PNone)]),
      (''fast_trading'',
         [(''class'', PClass ''FastTrading''),
          (''backtesting_datasource'', PNone),
          (''kwargs'', PDict []),
          (''backtesting_cache'', PBool False),
          (''config'', PNone)]),
      (''buy_and_hold'',
         [(''class'', PClass ''BuyAndHold''),
          (''backtesting_datasource'', PClass ''PandasDataBacktesting''),
          (''kwargs'', PDict []),
          (''backtesting_cache'', PBool False),
          (''config'', PNone),
          (''pandas_data'', PPool)]),
      (''simple'',
         [(''class'', PClass ''Simple''),
          (''backtesting_datasource'', PClass ''PandasDataBacktesting''),
          (''kwargs'', PDict []),
          (''backtesting_cache'', PBool False),
          (''config'', PNone),
          (''pandas_data'', PPool)])]"

section \<open>Resolving an entry\<close>

text \<open>\<^verbatim>\<open>d[k]\<close> raises \<^verbatim>\<open>KeyError\<close> on a missing key; \<^verbatim>\<open>k in d\<close> tests for it.\<close>

definition subscript :: "entry \<Rightarrow> string \<Rightarrow> error + pyval" where
  "subscript d k = (case map_of d k of None \<Rightarrow> Inl (KeyError k) | Some v \<Rightarrow> Inr v)"

definition has_key :: "entry \<Rightarrow> string \<Rightarrow> bool" where
  "has_key d k = (map_of d k \<noteq> None)"

text \<open>The five locals the loop reads from \<^verbatim>\<open>strategy_params\<close>, in the order read.\<close>

record params =
  strategy_class :: pyval
  backtesting_datasource :: pyval
  pandas_data :: pyval
  kwargs :: pyval
  config :: pyval

definition resolve :: "entry \<Rightarrow> error + params" where
  "resolve strategy_params =
     (case subscript strategy_params ''class'' of
        Inl e \<Rightarrow> Inl e
      | Inr c \<Rightarrow>
     (case subscript strategy_params ''backtesting_datasource'' of
        Inl e \<Rightarrow> Inl e
      | Inr b \<Rightarrow>
     (case (if has_key strategy_params ''pandas_data''
            then subscript strategy_params ''pandas_data'' else Inr PNone) of
        Inl e \<Rightarrow> Inl e
      | Inr p \<Rightarrow>
     (case subscript strategy_params ''kwargs'' of
        Inl e \<Rightarrow> Inl e
      | Inr k \<Rightarrow>
     (case subscript strategy_params ''config'' of
        Inl e \<Rightarrow> Inl e
      | Inr g \<Rightarrow>
          Inr \<lparr>strategy_class = c, backtesting_datasource = b, pandas_data = p,
               kwargs = k, config = g\<rparr>)))))"

section \<open>The stats-file path\<close>

text \<open>\<^verbatim>\<open>int(x)\<close> of a float truncates towards zero; \<^verbatim>\<open>str\<close> of an integer is its
  decimal numeral.\<close>

definition py_int :: "real \<Rightarrow> int" where
  "py_int x = (if 0 \<le> x then \<lfloor>x\<rfloor> else \<lceil>x\<rceil>)"

definition digit_char :: "nat \<Rightarrow> char" where
  "digit_char d = ''0123456789'' ! d"

fun digits :: "nat \<Rightarrow> string" where
  "digits n = (if n < 10 then [digit_char n] else digits (n div 10) @ [digit_char (n mod 10)])"

declare digits.simps [simp del]

definition py_str :: "int \<Rightarrow> string" where
  "py_str i = (if i < 0 then CHR ''-'' # digits (nat (- i)) else digits (nat i))"

definition stats_file_path :: "string \<Rightarrow> real \<Rightarrow> string" where
  "stats_file_path cname t = ''logs/strategy_'' @ cname @ ''_'' @ py_str (py_int t) @ ''.csv''"

text \<open>\<^verbatim>\<open>cls.__name__\<close>: only a class has the attribute.\<close>

definition class_name :: "pyval \<Rightarrow> error + string" where
  "class_name v =
     (case v of PClass c \<Rightarrow> Inr c | _ \<Rightarrow> Inl (AttributeError ''object'' ''__name__''))"

section \<open>The dispatcher\<close>

definition emit :: "event \<Rightarrow> state \<Rightarrow> state" where
  "emit ev st = st\<lparr>trace := trace st @ [ev]\<rparr>"

text \<open>A reading of \<^verbatim>\<open>time()\<close>, of \<^verbatim>\<open>perf_counter()\<close>; a call of a collaborator, which is
  logged and then returns or raises as the world decides.\<close>

definition read_time :: "env \<Rightarrow> state \<Rightarrow> real \<times> state" where
  "read_time env st = (let t = time_at env (length (trace st)) in (t, emit (Time t) st))"

definition read_perf :: "env \<Rightarrow> state \<Rightarrow> real \<times> state" where
  "read_perf env st = (let t = perf_at env (length (trace st)) in (t, emit (PerfCounter t) st))"

definition call :: "env \<Rightarrow> event \<Rightarrow> state \<Rightarrow> outcome" where
  "call env ev st =
     (if raises env (length (trace st)) then Fail (Downstream ev) (emit ev st)
      else Ok (emit ev st))"

text \<open>\<^verbatim>\<open>for data in pandas_data.values(): data.strategy = strategy_name\<close>, on the shared
  pool.\<close>

definition relabel :: "string \<Rightarrow> pool \<Rightarrow> pool" where
  "relabel strategy_name p = map (\<lambda>(a, d). (a, d\<lparr>strategy := strategy_name\<rparr>)) p"

text \<open>The live branch of one iteration: construct the strategy, register it.\<close>

definition live_branch :: "env \<Rightarrow> string \<Rightarrow> string \<Rightarrow> params \<Rightarrow> string \<Rightarrow> state \<Rightarrow> outcome" where
  "live_branch env strategy_name cname p stats_file st =
     (case kwargs p of
        PDict kw \<Rightarrow>
          (let strat = \<lparr>i_class = cname, i_name = strategy_name, i_budget = budget,
                        i_broker = alpaca_broker, i_stats_file = stats_file, i_kwargs = kw\<rparr>
           in case call env (Construct strat) st of
                Fail e s \<Rightarrow> Fail e s
              | Ok st1 \<Rightarrow>
                  (case call env (AddStrategy strat) st1 of
                     Fail e s \<Rightarrow> Fail e s
                   | Ok st2 \<Rightarrow> Ok (st2\<lparr>registered := registered st2 @ [strat]\<rparr>)))
      | _ \<Rightarrow> Fail (TypeError ''argument after ** must be a mapping'') st)"

text \<open>
  The backtest branch of one iteration. Only \<open>None\<close> and the shared pool are bound as
  \<^verbatim>\<open>pandas_data\<close> in the registry; any other value has no datasets to iterate and is
  treated as \<open>None\<close> is.
\<close>

definition backtest_branch ::
    "env \<Rightarrow> string \<Rightarrow> string \<Rightarrow> params \<Rightarrow> string \<Rightarrow> state \<Rightarrow> outcome" where
  "backtest_branch env strategy_name cname p stats_file st =
     (if backtesting_datasource p = PNone
      then Fail (ValueError (''Backtesting is not supported for strategy '' @ strategy_name)) st
      else
        (case pandas_data p of
           PPool \<Rightarrow>
             (let st1 = st\<lparr>pool := relabel strategy_name (pool st)\<rparr>;
                  (tic, st2) = read_perf env st1
              in case kwargs p of
                   PDict kw \<Rightarrow>
                     (case call env
                             (Backtest \<lparr>b_class = cname, b_name = strategy_name,
                                b_budget = budget, b_datasource = backtesting_datasource p,
                                b_start = backtesting_start, b_end = backtesting_end,
                                b_pandas_data = pool st2, b_stats_file = stats_file,
                                b_config = config p, b_kwargs = kw\<rparr>) st2 of
                        Fail e s \<Rightarrow> Fail e s
                      | Ok st3 \<Rightarrow>
                          (let (toc, st4) = read_perf env st3;
                               st5 = emit (PrintElapsed (toc - tic)) st4;
                               st6 = emit (LogInfo (''*** Benchmark Performance for ''
                                        @ benchmark_asset @ '' ***'')) st5
                           in call env
                                (CalculateReturns benchmark_asset backtesting_start
                                   backtesting_end) st6))
                 | _ \<Rightarrow> Fail (TypeError ''argument after ** must be a mapping'') st2)
         | _ \<Rightarrow> Fail (AttributeError ''NoneType'' ''values'') st))"

text \<open>One iteration of the loop over the requested names.\<close>

definition dispatch :: "env \<Rightarrow> bool \<Rightarrow> string \<Rightarrow> state \<Rightarrow> outcome" where
  "dispatch env live_trading strategy_name st =
     (case map_of mapping strategy_name of
        None \<Rightarrow> Fail (ValueError (''Strategy '' @ strategy_name @ '' does not exist'')) st
      | Some strategy_params \<Rightarrow>
          (case resolve strategy_params of
             Inl e \<Rightarrow> Fail e st
           | Inr p \<Rightarrow>
               (case class_name (strategy_class p) of
                  Inl e \<Rightarrow> Fail e st
                | Inr cname \<Rightarrow>
                    (let (t, st1) = read_time env st;
                         stats_file = stats_file_path cname t
                     in if live_trading
                        then live_branch env strategy_name cname p stats_file st1
                        else backtest_branch env strategy_name cname p stats_file st1))))"

fun run_loop :: "env \<Rightarrow> bool \<Rightarrow> string list \<Rightarrow> state \<Rightarrow> outcome" where
  "run_loop env live_trading [] st = Ok st"
| "run_loop env live_trading (strategy_name # rest) st =
     (case dispatch env live_trading strategy_name st of
        Fail e s \<Rightarrow> Fail e s
      | Ok st' \<Rightarrow> run_loop env live_trading rest st')"

text \<open>The report of the counters: \<^verbatim>\<open>values[0]\<close> of an empty list is an \<^verbatim>\<open>IndexError\<close>.\<close>

fun report_counters :: "(string \<times> real list) list \<Rightarrow> state \<Rightarrow> outcome" where
  "report_counters [] st = Ok st"
| "report_counters ((counter, vals) # rest) st =
     (case vals of
        [] \<Rightarrow> Fail IndexError st
      | v # _ \<Rightarrow> report_counters rest (emit (PrintCount counter v) st))"

text \<open>The script from the parsed command line on: the loop, the deferred run of the
  live strategies, the report.\<close>

definition main :: "env \<Rightarrow> bool \<Rightarrow> string list \<Rightarrow> state \<Rightarrow> outcome" where
  "main env live_trading strategies st =
     (case run_loop env live_trading strategies st of
        Fail e s \<Rightarrow> Fail e s
      | Ok st1 \<Rightarrow>
          (case (if live_trading then call env (RunAll (registered st1)) st1 else Ok st1) of
             Fail e s \<Rightarrow> Fail e s
           | Ok st2 \<Rightarrow>
               (case report_counters (counters env) st2 of
                  Fail e s \<Rightarrow> Fail e s
                | Ok st3 \<Rightarrow> Ok (emit (LogInfo ''The end'') st3))))"

text \<open>The state when the loop starts: the pool as loaded, nothing registered or logged.\<close>

definition initial :: "pool \<Rightarrow> state" where
  "initial p = \<lparr>pool = p, registered = [], trace = []\<rparr>"

section \<open>Observing a run\<close>

text \<open>The state an outcome ends in, the error it raised if any, and the part of the log
  that was written since a given state.\<close>

fun final :: "outcome \<Rightarrow> state" where
  "final (Ok s) = s"
| "final (Fail e s) = s"

fun failure :: "outcome \<Rightarrow> error option" where
  "failure (Ok s) = None"
| "failure (Fail e s) = Some e"

definition new_events :: "state \<Rightarrow> outcome \<Rightarrow> event list" where
  "new_events st out = drop (length (trace st)) (trace (final out))"

text \<open>The calls of each collaborator in a log, in order.\<close>

fun backtest_calls :: "event list \<Rightarrow> backtest_call list" where
  "backtest_calls [] = []"
| "backtest_calls (Backtest b # es) = b # backtest_calls es"
| "backtest_calls (e # es) = backtest_calls es"

fun constructed :: "event list \<Rightarrow> strategy_instance list" where
  "constructed [] = []"
| "constructed (Construct i # es) = i # constructed es"
| "constructed (e # es) = constructed es"

fun added :: "event list \<Rightarrow> strategy_instance list" where
  "added [] = []"
| "added (AddStrategy i # es) = i # added es"
| "added (e # es) = added es"

fun run_alls :: "event list \<Rightarrow> strategy_instance list list" where
  "run_alls [] = []"
| "run_alls (RunAll is # es) = is # run_alls es"
| "run_alls (e # es) = run_alls es"

fun benchmark_calls :: "event list \<Rightarrow> (string \<times> datetime \<times> datetime) list" where
  "benchmark_calls [] = []"
| "benchmark_calls (CalculateReturns a s e # es) = (a, s, e) # benchmark_calls es"
| "benchmark_calls (e # es) = benchmark_calls es"

fun time_reads :: "event list \<Rightarrow> real list" where
  "time_reads [] = []"
| "time_reads (Time t # es) = t # time_reads es"
| "time_reads (e # es) = time_reads es"

text \<open>The stats-file paths handed to a collaborator: to the constructor of a live
  strategy, or to the backtest entry point.\<close>

fun stats_files :: "event list \<Rightarrow> string list" where
  "stats_files [] = []"
| "stats_files (Construct i # es) = i_stats_file i # stats_files es"
| "stats_files (Backtest b # es) = b_stats_file b # stats_files es"
| "stats_files (e # es) = stats_files es"

text \<open>What only the live path does, and what only the backtest path does.\<close>

fun is_live_event :: "event \<Rightarrow> bool" where
  "is_live_event (Construct i) = True"
| "is_live_event (AddStrategy i) = True"
| "is_live_event (RunAll is) = True"
| "is_live_event e = False"

fun is_backtest_event :: "event \<Rightarrow> bool" where
  "is_backtest_event (Backtest b) = True"
| "is_backtest_event (PerfCounter t) = True"
| "is_backtest_event (PrintElapsed d) = True"
| "is_backtest_event (CalculateReturns a s e) = True"
| "is_backtest_event e = False"

text \<open>The owning-strategy labels of a pool.\<close>

definition labels :: "pool \<Rightarrow> string list" where
  "labels p = map (\<lambda>(a, d). strategy d) p"

text \<open>
  An example world: the wall clock stands at 1551312000.5 seconds, the performance counter
  advances by one per interaction, no collaborator raises, one counter was accumulated.
  And an example pool of one dataset with two daily bars.
\<close>

definition sample_env :: env where
  "sample_env =
     \<lparr>time_at = (\<lambda>k. 3102624001 / 2), perf_at = (\<lambda>k. of_nat k), raises = (\<lambda>k. False),
      counters = [(''backtest'', [3 / 2])]\<rparr>"

definition sample_pool :: pool where
  "sample_pool =
     [(\<lparr>symbol = ''SPY'', asset_type = ''stock''\<rparr>,
       \<lparr>strategy = ''my_strategy'', asset = \<lparr>symbol = ''SPY'', asset_type = ''stock''\<rparr>,
        df = \<lparr>index_name = ''datetime'',
               columns = [''open'', ''high'', ''low'', ''close'', ''volume''],
               rows = [((2019, 3, 1, 0, 0, 0),
                          [NumCell 280, NumCell 281, NumCell 279, NumCell 280, NumCell 1000]),
                       ((2019, 3, 4, 0, 0, 0),
                          [NumCell 281, NumCell 282, NumCell 278, NumCell 279, NumCell 1200])]\<rparr>,
        date_start = (2019, 1, 6, 0, 0, 0), date_end = (2019, 12, 15, 0, 0, 0),
        timestep = ''day''\<rparr>)]"

section \<open>Well-formed price files\<close>

text \<open>
  A well-formed source file has a header row, and every other row has the seven columns
  date, open, high, low, close, one ignored column, volume, the date being parsed. The
  rows may come in any order.
\<close>

definition well_formed_row :: "cell list \<Rightarrow> bool" where
  "well_formed_row r = (case r of DateCell d # vs \<Rightarrow> length vs = 6 | _ \<Rightarrow> False)"

definition well_formed :: "cell list list \<Rightarrow> bool" where
  "well_formed file = (case file of [] \<Rightarrow> False | header # body \<Rightarrow> list_all well_formed_row body)"

text \<open>The date of a row of the file; whether it lies within a horizon; and the record a
  row stands for: its date with its open, high, low, close and volume, the sixth column
  left out.\<close>

definition row_date :: "cell list \<Rightarrow> datetime option" where
  "row_date r = (case r of DateCell d # vs \<Rightarrow> Some d | _ \<Rightarrow> None)"

definition in_horizon :: "datetime \<Rightarrow> datetime \<Rightarrow> cell list \<Rightarrow> bool" where
  "in_horizon ds de r = (case r of DateCell d # vs \<Rightarrow> ds \<le> d \<and> d \<le> de | _ \<Rightarrow> False)"

definition canonical :: "cell list \<Rightarrow> datetime \<times> cell list" where
  "canonical r =
     (case r of
        DateCell d # vs \<Rightarrow> (d, [r ! 1, r ! 2, r ! 3, r ! 4, r ! 6])
      | _ \<Rightarrow> ((0, 0, 0, 0, 0, 0), []))"

text \<open>An example file for \<open>SPY\<close>: its rows are out of order, and two of them, of the same
  date, lie before the horizon.\<close>

definition sample_file :: "cell list list" where
  "sample_file =
     [[TextCell ''Date'', TextCell ''Open'', TextCell ''High'', TextCell ''Low'',
       TextCell ''Close'', TextCell ''Adj Close'', TextCell ''Volume''],
      [DateCell (2019, 3, 4, 0, 0, 0), NumCell 281, NumCell 282, NumCell 278, NumCell 279,
       NumCell 277, NumCell 1200],
      [DateCell (2019, 1, 2, 0, 0, 0), NumCell 245, NumCell 251, NumCell 245, NumCell 250,
       NumCell 248, NumCell 900],
      [DateCell (2019, 3, 1, 0, 0, 0), NumCell 280, NumCell 281, NumCell 279, NumCell 280,
       NumCell 278, NumCell 1000],
      [DateCell (2019, 1, 2, 0, 0, 0), NumCell 245, NumCell 251, NumCell 245, NumCell 250,
       NumCell 248, NumCell 900]]"

text \<open>And a file in which two rows within the horizon have the same date.\<close>

definition duplicate_file :: "cell list list" where
  "duplicate_file =
     [[TextCell ''Date'', TextCell ''Open'', TextCell ''High'', TextCell ''Low'',
       TextCell ''Close'', TextCell ''Adj Close'', TextCell ''Volume''],
      [DateCell (2019, 3, 1, 0, 0, 0), NumCell 280, NumCell 281, NumCell 279, NumCell 280,
       NumCell 278, NumCell 1000],
      [DateCell (2019, 3, 1, 0, 0, 0), NumCell 280, NumCell 282, NumCell 279, NumCell 281,
       NumCell 279, NumCell 1100]]"

section \<open>Decimal numerals\<close>

text \<open>
  What it is for a string to be the decimal numeral of a natural number, said without the
  conversions of the script: the string is not empty, all its characters are digits, it
  has no leading zero unless it is \<open>0\<close> itself, and its digits read from the left give the
  number.
\<close>

definition is_digit :: "char \<Rightarrow> bool" where
  "is_digit c = (c \<in> set ''0123456789'')"

definition digit_value :: "char \<Rightarrow> nat" where
  "digit_value c = of_char c - 48"

definition decimal_value :: "string \<Rightarrow> nat" where
  "decimal_value s = foldl (\<lambda>a c. 10 * a + digit_value c) 0 s"

definition is_decimal_of :: "string \<Rightarrow> nat \<Rightarrow> bool" where
  "is_decimal_of s n =
     (s \<noteq> [] \<and> list_all is_digit s \<and> (hd s \<noteq> CHR ''0'' \<or> s = ''0'') \<and> decimal_value s = n)"

section \<open>Basic facts of the model\<close>

lemma digits_small: "n < 10 \<Longrightarrow> digits n = [digit_char n]"
  by (subst digits.simps) simp

lemma digits_big: "10 \<le> n \<Longrightarrow> digits n = digits (n div 10) @ [digit_char (n mod 10)]"
  by (subst digits.simps) simp

lemma sample_path: "stats_file_path c (3102624001 / 2) = ''logs/strategy_'' @ c @ ''_1551312000.csv''"
  by (simp add: stats_file_path_def py_int_def py_str_def digits_small digits_big digit_char_def)

text \<open>Every entry of the registry resolves: its class is a class, its keyword arguments
  are a dictionary, its dataset binding is \<open>None\<close> or the shared pool.\<close>

lemma resolve_registered:
  assumes "map_of mapping n = Some e"
  shows "\<exists>c b pd kw. resolve e = Inr \<lparr>strategy_class = PClass c, backtesting_datasource = b,
            pandas_data = pd, kwargs = PDict kw, config = PNone\<rparr>
          \<and> (pd = PNone \<or> pd = PPool) \<and> (b = PNone \<or> (\<exists>s. b = PClass s))"
  using assms
  by (auto simp: mapping_def resolve_def subscript_def has_key_def split: if_splits)

lemma dispatch_unknown:
  "map_of mapping n = None \<Longrightarrow>
     dispatch env live n st = Fail (ValueError (''Strategy '' @ n @ '' does not exist'')) st"
  by (simp add: dispatch_def)

text \<open>One iteration on the live path, spelled out.\<close>

lemma dispatch_live:
  assumes "map_of mapping n = Some e"
    and "resolve e = Inr p" and "strategy_class p = PClass c" and "kwargs p = PDict kw"
  shows "dispatch env True n st =
     (let t = time_at env (length (trace st));
          strat = \<lparr>i_class = c, i_name = n, i_budget = budget, i_broker = alpaca_broker,
                   i_stats_file = stats_file_path c t, i_kwargs = kw\<rparr>
      in if raises env (Suc (length (trace st)))
         then Fail (Downstream (Construct strat))
                (st\<lparr>trace := trace st @ [Time t, Construct strat]\<rparr>)
         else if raises env (Suc (Suc (length (trace st))))
         then Fail (Downstream (AddStrategy strat))
                (st\<lparr>trace := trace st @ [Time t, Construct strat, AddStrategy strat]\<rparr>)
         else Ok (st\<lparr>trace := trace st @ [Time t, Construct strat, AddStrategy strat],
                    registered := registered st @ [strat]\<rparr>))"
  using assms
  by (simp add: dispatch_def class_name_def read_time_def live_branch_def call_def emit_def Let_def)

text \<open>One iteration on the backtest path, spelled out.\<close>

lemma dispatch_backtest:
  assumes "map_of mapping n = Some e"
    and "resolve e = Inr p" and "strategy_class p = PClass c" and "kwargs p = PDict kw"
  shows "dispatch env False n st =
     (let k = length (trace st); t = time_at env k; st1 = st\<lparr>trace := trace st @ [Time t]\<rparr> in
      if backtesting_datasource p = PNone
      then Fail (ValueError (''Backtesting is not supported for strategy '' @ n)) st1
      else if pandas_data p \<noteq> PPool
      then Fail (AttributeError ''NoneType'' ''values'') st1
      else
        (let tic = perf_at env (Suc k);
             bc = \<lparr>b_class = c, b_name = n, b_budget = budget,
                   b_datasource = backtesting_datasource p,
                   b_start = backtesting_start, b_end = backtesting_end,
                   b_pandas_data = relabel n (pool st), b_stats_file = stats_file_path c t,
                   b_config = config p, b_kwargs = kw\<rparr>;
             st3 = st\<lparr>pool := relabel n (pool st),
                       trace := trace st @ [Time t, PerfCounter tic, Backtest bc]\<rparr>
         in if raises env (Suc (Suc k)) then Fail (Downstream (Backtest bc)) st3
            else
              (let toc = perf_at env (Suc (Suc (Suc k)));
                   ev = CalculateReturns benchmark_asset backtesting_start backtesting_end;
                   st7 = st\<lparr>pool := relabel n (pool st),
                             trace := trace st @ [Time t, PerfCounter tic, Backtest bc,
                               PerfCounter toc, PrintElapsed (toc - tic),
                               LogInfo (''*** Benchmark Performance for '' @ benchmark_asset
                                        @ '' ***''),
                               ev]\<rparr>
               in if raises env (Suc (Suc (Suc (Suc (Suc (Suc k)))))) then Fail (Downstream ev) st7
                  else Ok st7)))"
  using assms
  by (cases "pandas_data p")
     (simp_all add: dispatch_def class_name_def read_time_def read_perf_def backtest_branch_def
       call_def emit_def Let_def)

lemma run_loop_append:
  "run_loop env live (xs @ ys) st =
     (case run_loop env live xs st of Fail e s \<Rightarrow> Fail e s | Ok st1 \<Rightarrow> run_loop env live ys st1)"
  by (induction xs arbitrary: st) (auto split: outcome.splits)

text \<open>The entry of \<open>simple\<close> and what it resolves to; the entries of the two strategies
  without a backtest data source, and of \<open>debt_trading\<close>.\<close>

lemma entry_simple:
  "map_of mapping ''simple'' =
     Some [(''class'', PClass ''Simple''),
           (''backtesting_datasource'', PClass ''PandasDataBacktesting''),
           (''kwargs'', PDict []), (''backtesting_cache'', PBool False),
           (''config'', PNone), (''pandas_data'', PPool)]"
  by (simp add: mapping_def)

lemma resolve_simple:
  "resolve [(''class'', PClass ''Simple''),
            (''backtesting_datasource'', PClass ''PandasDataBacktesting''),
            (''kwargs'', PDict []), (''backtesting_cache'', PBool False),
            (''config'', PNone), (''pandas_data'', PPool)] =
     Inr \<lparr>strategy_class = PClass ''Simple'',
          backtesting_datasource = PClass ''PandasDataBacktesting'',
          pandas_data = PPool, kwargs = PDict [], config = PNone\<rparr>"
  by (simp add: resolve_def subscript_def has_key_def)

lemma entry_intraday_momentum:
  "map_of mapping ''intraday_momentum'' =
     Some [(''class'', PClass ''IntradayMomentum''), (''backtesting_datasource'', PNone),
           (''kwargs'', PDict []), (''config'', PNone)]"
  by (simp add: mapping_def)

lemma entry_debt_trading:
  "map_of mapping ''debt_trading'' =
     Some [(''class'', PClass ''DebtTrading''),
           (''backtesting_datasource'', PClass ''YahooDataBacktesting''),
           (''kwargs'', PDict []), (''config'', PNone), (''pandas_data'', PNone)]"
  by (simp add: mapping_def)

lemma absent_nope: "map_of mapping ''nope'' = None"
  by (simp add: mapping_def)

text \<open>The example runs: \<open>simple\<close> dispatched live and as a backtest in the example world.\<close>

lemma sample_live_simple:
  "dispatch sample_env True ''simple'' (initial sample_pool) =
     Ok \<lparr>pool = sample_pool,
         registered = [\<lparr>i_class = ''Simple'', i_name = ''simple'', i_budget = 40000,
                        i_broker = alpaca_broker,
                        i_stats_file = ''logs/strategy_Simple_1551312000.csv'', i_kwargs = []\<rparr>],
         trace = [Time (3102624001 / 2),
                  Construct \<lparr>i_class = ''Simple'', i_name = ''simple'', i_budget = 40000,
                        i_broker = alpaca_broker,
                        i_stats_file = ''logs/strategy_Simple_1551312000.csv'', i_kwargs = []\<rparr>,
                  AddStrategy \<lparr>i_class = ''Simple'', i_name = ''simple'', i_budget = 40000,
                        i_broker = alpaca_broker,
                        i_stats_file = ''logs/strategy_Simple_1551312000.csv'', i_kwargs = []\<rparr>]\<rparr>"
  using dispatch_live [OF entry_simple resolve_simple, of "''Simple''" "[]" sample_env
      "initial sample_pool"]
  by (simp add: Let_def sample_env_def initial_def sample_path budget_def)


lemma resolve_fields:
  assumes "resolve e = Inr p"
  shows "map_of e ''class'' = Some (strategy_class p)"
    and "map_of e ''backtesting_datasource'' = Some (backtesting_datasource p)"
    and "map_of e ''kwargs'' = Some (kwargs p)"
    and "map_of e ''config'' = Some (config p)"
    and "pandas_data p = (case map_of e ''pandas_data'' of None \<Rightarrow> PNone | Some v \<Rightarrow> v)"
  using assms
  by (auto simp: resolve_def subscript_def has_key_def split: option.splits if_splits)

lemma new_events_append [simp]:
  "new_events st (Ok (st\<lparr>trace := trace st @ evs\<rparr>)) = evs"
  "new_events st (Fail err (st\<lparr>trace := trace st @ evs\<rparr>)) = evs"
  "new_events st (Ok (st\<lparr>pool := q, trace := trace st @ evs\<rparr>)) = evs"
  "new_events st (Fail err (st\<lparr>pool := q, trace := trace st @ evs\<rparr>)) = evs"
  "new_events st (Ok (st\<lparr>trace := trace st @ evs, registered := r\<rparr>)) = evs"
  "new_events st (Fail err st) = []"
  by (simp_all add: new_events_def)

section \<open>Unknown names\<close>

text \<open>
  C1 (as the code has it). When a requested name is absent from the registry, the
  invocation fails, but not before any run executes: the names in front of it are
  dispatched in order, exactly as the loop over them alone would do, and if all of them
  succeed the run stops with the unknown-strategy error for that name, in the state the
  earlier names left. Nothing is generated, invoked or registered for the absent name or
  any name after it, and the deferred run of the live strategies is never reached.
\<close>

theorem unknown_name_stops_the_batch:
  assumes "map_of mapping bad = None"
  shows "main env live (pre @ bad # post) st =
           (case run_loop env live pre st of
              Ok st1 \<Rightarrow> Fail (ValueError (''Strategy '' @ bad @ '' does not exist'')) st1
            | Fail e s \<Rightarrow> Fail e s)
         \<and> failure (main env live (pre @ bad # post) st) \<noteq> None"
proof -
  have "run_loop env live (pre @ bad # post) st =
           (case run_loop env live pre st of
              Ok st1 \<Rightarrow> Fail (ValueError (''Strategy '' @ bad @ '' does not exist'')) st1
            | Fail e s \<Rightarrow> Fail e s)"
    by (simp add: run_loop_append dispatch_unknown [OF assms] split: outcome.splits)
  then show ?thesis
    by (simp add: main_def split: outcome.splits)
qed

theorem unknown_name_stops_the_batch_witness:
  "map_of mapping ''nope'' = None
   \<and> main sample_env True [''simple'', ''nope'', ''buy_and_hold''] (initial sample_pool) =
       Fail (ValueError ''Strategy nope does not exist'')
         (final (dispatch sample_env True ''simple'' (initial sample_pool)))"
  using unknown_name_stops_the_batch [OF absent_nope, of sample_env True "[''simple'']"
      "[''buy_and_hold'']" "initial sample_pool"]
  by (simp add: absent_nope sample_live_simple)

text \<open>
  The claim as stated fails: with \<open>simple\<close> requested in front of the unknown \<open>nope\<close>, the
  live invocation has read the clock, generated the stats-file path of \<open>simple\<close> and
  registered its instance before it fails, and the backtest invocation has called the
  backtest entry point for \<open>simple\<close>.
\<close>

theorem unknown_name_after_valid_counterexample:
  "map_of mapping ''nope'' = None
   \<and> failure (main sample_env True [''simple'', ''nope''] (initial sample_pool)) =
       Some (ValueError ''Strategy nope does not exist'')
   \<and> map i_name (registered (final (main sample_env True [''simple'', ''nope'']
         (initial sample_pool)))) = [''simple'']
   \<and> stats_files (trace (final (main sample_env True [''simple'', ''nope'']
         (initial sample_pool)))) = [''logs/strategy_Simple_1551312000.csv'']
   \<and> failure (main sample_env False [''simple'', ''nope''] (initial sample_pool)) =
       Some (ValueError ''Strategy nope does not exist'')
   \<and> map b_name (backtest_calls (trace (final (main sample_env False [''simple'', ''nope'']
         (initial sample_pool))))) = [''simple'']"
proof -
  have live: "main sample_env True [''simple'', ''nope''] (initial sample_pool) =
      Fail (ValueError ''Strategy nope does not exist'')
        (final (dispatch sample_env True ''simple'' (initial sample_pool)))"
    by (simp add: main_def sample_live_simple dispatch_unknown [OF absent_nope])
  have "raises sample_env k = False" for k
    by (simp add: sample_env_def)
  then obtain s1 where d: "dispatch sample_env False ''simple'' (initial sample_pool) = Ok s1"
    and b: "map b_name (backtest_calls (trace s1)) = [''simple'']"
    using dispatch_backtest [OF entry_simple resolve_simple, of "''Simple''" "[]" sample_env
      "initial sample_pool"]
    by (simp add: Let_def initial_def)
  have "main sample_env False [''simple'', ''nope''] (initial sample_pool) =
      Fail (ValueError ''Strategy nope does not exist'') s1"
    by (simp add: main_def d dispatch_unknown [OF absent_nope])
  with live b show ?thesis
    by (simp add: absent_nope sample_live_simple)
qed


section \<open>Backtests that cannot start\<close>

text \<open>
  C2. A registered strategy whose entry has no backtest data source
  (\<^verbatim>\<open>backtesting_datasource\<close> is \<open>None\<close>), dispatched with the live flag off, raises the
  unsupported-backtest error. On that path the clock has been read for the path of the
  stats file, but the path is handed to nobody: no stats file is created, the backtest
  entry point is not called, and the pool keeps every label. The whole invocation ends
  with that error.
\<close>

theorem backtest_unsupported_without_datasource:
  assumes "map_of mapping n = Some e"
    and "map_of e ''backtesting_datasource'' = Some PNone"
  shows "dispatch env False n st =
           Fail (ValueError (''Backtesting is not supported for strategy '' @ n))
             (st\<lparr>trace := trace st @ [Time (time_at env (length (trace st)))]\<rparr>)
         \<and> stats_files (new_events st (dispatch env False n st)) = []
         \<and> backtest_calls (new_events st (dispatch env False n st)) = []
         \<and> pool (final (dispatch env False n st)) = pool st
         \<and> registered (final (dispatch env False n st)) = registered st
         \<and> failure (main env False (n # rest) st) =
             Some (ValueError (''Backtesting is not supported for strategy '' @ n))"
proof -
  obtain c b pd kw where r: "resolve e = Inr \<lparr>strategy_class = PClass c,
      backtesting_datasource = b, pandas_data = pd, kwargs = PDict kw, config = PNone\<rparr>"
    using resolve_registered [OF assms(1)] by blast
  from resolve_fields(2) [OF r] assms(2) have b: "b = PNone"
    by simp
  have d: "dispatch env False n st =
           Fail (ValueError (''Backtesting is not supported for strategy '' @ n))
             (st\<lparr>trace := trace st @ [Time (time_at env (length (trace st)))]\<rparr>)"
    using dispatch_backtest [OF assms(1) r, of c kw env st] b
    by (simp add: Let_def)
  show ?thesis
    by (simp add: d main_def)
qed

theorem backtest_unsupported_without_datasource_witness:
  "map_of mapping ''intraday_momentum'' =
     Some [(''class'', PClass ''IntradayMomentum''), (''backtesting_datasource'', PNone),
           (''kwargs'', PDict []), (''config'', PNone)]
   \<and> dispatch sample_env False ''intraday_momentum'' (initial sample_pool) =
       Fail (ValueError ''Backtesting is not supported for strategy intraday_momentum'')
         \<lparr>pool = sample_pool, registered = [], trace = [Time (3102624001 / 2)]\<rparr>"
  using backtest_unsupported_without_datasource [OF entry_intraday_momentum, of sample_env
      "initial sample_pool" "[]"]
  by (simp add: entry_intraday_momentum initial_def sample_env_def)

text \<open>
  C9. An entry with a backtest data source whose dataset binding is \<open>None\<close> (only
  \<open>debt_trading\<close>) gets past the unsupported-backtest check in a backtest dispatch and
  then fails with an attribute error, where the loop over \<^verbatim>\<open>pandas_data.values()\<close> meets
  \<open>None\<close>: the backtest entry point is never called. A configured data source alone does
  not bring the dispatch to the entry point.
\<close>

theorem backtest_without_pool_attribute_error:
  assumes "map_of mapping n = Some e"
    and "map_of e ''backtesting_datasource'' = Some b" and "b \<noteq> PNone"
    and "map_of e ''pandas_data'' = Some PNone"
  shows "dispatch env False n st =
           Fail (AttributeError ''NoneType'' ''values'')
             (st\<lparr>trace := trace st @ [Time (time_at env (length (trace st)))]\<rparr>)
         \<and> backtest_calls (new_events st (dispatch env False n st)) = []
         \<and> pool (final (dispatch env False n st)) = pool st
         \<and> failure (main env False (n # rest) st) = Some (AttributeError ''NoneType'' ''values'')"
proof -
  obtain c b' pd kw where r: "resolve e = Inr \<lparr>strategy_class = PClass c,
      backtesting_datasource = b', pandas_data = pd, kwargs = PDict kw, config = PNone\<rparr>"
    using resolve_registered [OF assms(1)] by blast
  from resolve_fields(2) [OF r] assms(2) have b: "b' = b"
    by simp
  from resolve_fields(5) [OF r] assms(4) have pd: "pd = PNone"
    by simp
  have d: "dispatch env False n st =
           Fail (AttributeError ''NoneType'' ''values'')
             (st\<lparr>trace := trace st @ [Time (time_at env (length (trace st)))]\<rparr>)"
    using dispatch_backtest [OF assms(1) r, of c kw env st] b pd assms(3)
    by (simp add: Let_def)
  show ?thesis
    by (simp add: d main_def)
qed

theorem backtest_without_pool_attribute_error_witness:
  "map_of mapping ''debt_trading'' =
     Some [(''class'', PClass ''DebtTrading''),
           (''backtesting_datasource'', PClass ''YahooDataBacktesting''),
           (''kwargs'', PDict []), (''config'', PNone), (''pandas_data'', PNone)]
   \<and> PClass ''YahooDataBacktesting'' \<noteq> PNone
   \<and> dispatch sample_env False ''debt_trading'' (initial sample_pool) =
       Fail (AttributeError ''NoneType'' ''values'')
         \<lparr>pool = sample_pool, registered = [], trace = [Time (3102624001 / 2)]\<rparr>"
  using backtest_without_pool_attribute_error [OF entry_debt_trading,
      of "PClass ''YahooDataBacktesting''" sample_env "initial sample_pool" "[]"]
  by (simp add: entry_debt_trading initial_def sample_env_def)

section \<open>Resolution of an entry is total\<close>

text \<open>
  C10. The dataset binding is read behind a test for the key, so an entry without the key
  \<^verbatim>\<open>pandas_data\<close> (these are \<open>intraday_momentum\<close> and \<open>fast_trading\<close>) resolves to the
  binding \<open>None\<close> and not to a missing-key error. Every registered name resolves; and so
  does any entry that has the four keys read without a test, whatever else it carries.
\<close>

theorem resolution_total:
  assumes "map_of mapping n = Some e"
  shows "(\<exists>p. resolve e = Inr p
            \<and> (if has_key e ''pandas_data'' then map_of e ''pandas_data'' = Some (pandas_data p)
               else pandas_data p = PNone))
         \<and> ((\<not> has_key e ''pandas_data'') = (n = ''intraday_momentum'' \<or> n = ''fast_trading''))
         \<and> (\<forall>e'. has_key e' ''class'' \<and> has_key e' ''backtesting_datasource''
                 \<and> has_key e' ''kwargs'' \<and> has_key e' ''config''
               \<longrightarrow> (\<exists>p. resolve e' = Inr p
                     \<and> (has_key e' ''pandas_data'' \<or> pandas_data p = PNone)))"
proof -
  have "\<exists>p. resolve e = Inr p
            \<and> (if has_key e ''pandas_data'' then map_of e ''pandas_data'' = Some (pandas_data p)
               else pandas_data p = PNone)"
    using assms
    by (auto simp: mapping_def resolve_def subscript_def has_key_def split: if_splits)
  moreover have "(\<not> has_key e ''pandas_data'') = (n = ''intraday_momentum'' \<or> n = ''fast_trading'')"
    using assms
    by (auto simp: mapping_def has_key_def split: if_splits)
  moreover have "\<exists>p. resolve e' = Inr p \<and> (has_key e' ''pandas_data'' \<or> pandas_data p = PNone)"
    if "has_key e' ''class'' \<and> has_key e' ''backtesting_datasource''
          \<and> has_key e' ''kwargs'' \<and> has_key e' ''config''" for e'
    using that
    by (auto simp: resolve_def subscript_def has_key_def split: option.splits)
  ultimately show ?thesis
    by blast
qed

theorem resolution_total_witness:
  "map_of mapping ''fast_trading'' =
     Some [(''class'', PClass ''FastTrading''), (''backtesting_datasource'', PNone),
           (''kwargs'', PDict []), (''backtesting_cache'', PBool False), (''config'', PNone)]
   \<and> resolve [(''class'', PClass ''FastTrading''), (''backtesting_datasource'', PNone),
           (''kwargs'', PDict []), (''backtesting_cache'', PBool False), (''config'', PNone)] =
       Inr \<lparr>strategy_class = PClass ''FastTrading'', backtesting_datasource = PNone,
            pandas_data = PNone, kwargs = PDict [], config = PNone\<rparr>"
proof -
  have e: "map_of mapping ''fast_trading'' =
     Some [(''class'', PClass ''FastTrading''), (''backtesting_datasource'', PNone),
           (''kwargs'', PDict []), (''backtesting_cache'', PBool False), (''config'', PNone)]"
    by (simp add: mapping_def)
  from resolution_total [OF e] obtain p where
    "resolve [(''class'', PClass ''FastTrading''), (''backtesting_datasource'', PNone),
           (''kwargs'', PDict []), (''backtesting_cache'', PBool False), (''config'', PNone)] =
       Inr p" and "pandas_data p = PNone"
    by (auto simp: has_key_def)
  then show ?thesis
    using e by (auto simp: resolve_def subscript_def has_key_def)
qed


section \<open>One mode per invocation\<close>

lemma resolved:
  assumes "map_of mapping n = Some e"
  obtains p c kw where "resolve e = Inr p" "strategy_class p = PClass c" "kwargs p = PDict kw"
proof -
  from resolve_registered [OF assms] obtain c b pd kw where
    "resolve e = Inr \<lparr>strategy_class = PClass c, backtesting_datasource = b,
            pandas_data = pd, kwargs = PDict kw, config = PNone\<rparr>"
    by blast
  with that [of "\<lparr>strategy_class = PClass c, backtesting_datasource = b,
            pandas_data = pd, kwargs = PDict kw, config = PNone\<rparr>" c kw]
  show thesis
    by simp
qed

lemma report_counters_keeps:
  "pool (final (report_counters cs st)) = pool st"
  "registered (final (report_counters cs st)) = registered st"
  by (induction cs st rule: report_counters.induct; simp add: emit_def split: list.splits)+

lemma report_counters_filter:
  assumes "\<And>c v. \<not> P (PrintCount c v)"
  shows "filter P (trace (final (report_counters cs st))) = filter P (trace st)"
  by (induction cs st rule: report_counters.induct)
     (simp_all add: emit_def assms split: list.splits)

text \<open>What the part of the script after the loop adds to the log and to the state.\<close>

lemma main_filter:
  assumes "\<And>c v. \<not> P (PrintCount c v)" and "\<not> P (LogInfo ''The end'')"
  shows "filter P (trace (final (main env live names st))) =
     (case run_loop env live names st of
        Fail e s \<Rightarrow> filter P (trace s)
      | Ok st1 \<Rightarrow> filter P (trace st1) @ (if live then filter P [RunAll (registered st1)] else []))"
proof (cases "run_loop env live names st")
  case (Fail e s)
  then show ?thesis by (simp add: main_def)
next
  case (Ok st1)
  define st2 where "st2 = (if live then emit (RunAll (registered st1)) st1 else st1)"
  have t2: "filter P (trace st2) =
      filter P (trace st1) @ (if live then filter P [RunAll (registered st1)] else [])"
    by (simp add: st2_def emit_def)
  show ?thesis
  proof (cases "live \<and> raises env (length (trace st1))")
    case True
    with Ok show ?thesis
      by (simp add: main_def call_def emit_def)
  next
    case False
    then have m: "main env live names st =
        (case report_counters (counters env) st2 of
           Fail e s \<Rightarrow> Fail e s
         | Ok st3 \<Rightarrow> Ok (emit (LogInfo ''The end'') st3))"
      using Ok by (auto simp: main_def call_def st2_def)
    show ?thesis
    proof (cases "report_counters (counters env) st2")
      case (Ok st3)
      with report_counters_filter [of P "counters env" st2, OF assms(1)] m t2 assms(2)
      show ?thesis
        using \<open>run_loop env live names st = Ok st1\<close> by (simp add: emit_def)
    next
      case (Fail e s)
      with report_counters_filter [of P "counters env" st2, OF assms(1)] m t2
      show ?thesis
        using \<open>run_loop env live names st = Ok st1\<close> by simp
    qed
  qed
qed

lemma main_registered:
  "registered (final (main env live names st)) = registered (final (run_loop env live names st))"
proof (cases "run_loop env live names st")
  case (Fail e s)
  then show ?thesis by (simp add: main_def)
next
  case (Ok st1)
  define st2 where "st2 = (if live then emit (RunAll (registered st1)) st1 else st1)"
  have r2: "registered st2 = registered st1"
    by (simp add: st2_def emit_def)
  show ?thesis
  proof (cases "live \<and> raises env (length (trace st1))")
    case True
    with Ok show ?thesis
      by (simp add: main_def call_def emit_def)
  next
    case False
    then have m: "main env live names st =
        (case report_counters (counters env) st2 of
           Fail e s \<Rightarrow> Fail e s
         | Ok st3 \<Rightarrow> Ok (emit (LogInfo ''The end'') st3))"
      using Ok by (auto simp: main_def call_def st2_def)
    show ?thesis
      using report_counters_keeps(2) [of "counters env" st2] m r2 Ok
      by (cases "report_counters (counters env) st2") (simp_all add: emit_def)
  qed
qed

text \<open>A live iteration logs nothing of the backtest path, and a backtest iteration
  nothing of the live path.\<close>

lemma dispatch_live_no_backtest_event:
  "filter is_backtest_event (trace (final (dispatch env True n st))) =
     filter is_backtest_event (trace st)"
proof (cases "map_of mapping n")
  case None
  then show ?thesis by (simp add: dispatch_unknown)
next
  case (Some e)
  from resolved [OF Some] obtain p c kw where
    "resolve e = Inr p" "strategy_class p = PClass c" "kwargs p = PDict kw" .
  from dispatch_live [OF Some this] show ?thesis
    by (simp add: Let_def)
qed


lemma run_loop_live_no_backtest_event:
  "filter is_backtest_event (trace (final (run_loop env True names st))) =
     filter is_backtest_event (trace st)"
proof (induction names arbitrary: st)
  case Nil
  then show ?case by simp
next
  case (Cons n names)
  show ?case
  proof (cases "dispatch env True n st")
    case (Ok st')
    with Cons [of st'] dispatch_live_no_backtest_event [of env n st] show ?thesis
      by simp
  next
    case (Fail e s)
    with dispatch_live_no_backtest_event [of env n st] show ?thesis
      by simp
  qed
qed




section \<open>The live path\<close>

text \<open>The live events of registering the given strategies one after the other.\<close>

lemma dispatch_live_quiet:
  assumes "map_of mapping n \<noteq> None" and "\<forall>k. \<not> raises env k"
  shows "\<exists>i. dispatch env True n st =
            Ok (st\<lparr>trace := trace st @ [Time (time_at env (length (trace st))),
                                         Construct i, AddStrategy i],
                   registered := registered st @ [i]\<rparr>)
          \<and> i_name i = n \<and> i_broker i = alpaca_broker \<and> i_budget i = budget"
proof -
  from assms(1) obtain e where e: "map_of mapping n = Some e"
    by blast
  from resolved [OF e] obtain p c kw where
    "resolve e = Inr p" "strategy_class p = PClass c" "kwargs p = PDict kw" .
  from dispatch_live [OF e this, of env st] assms(2) show ?thesis
    by (intro exI [of _ "\<lparr>i_class = c, i_name = n, i_budget = budget,
          i_broker = alpaca_broker,
          i_stats_file = stats_file_path c (time_at env (length (trace st))),
          i_kwargs = kw\<rparr>"])
       (simp add: Let_def)
qed

lemma run_loop_live_quiet:
  assumes "list_all (\<lambda>n. map_of mapping n \<noteq> None) names" and "\<forall>k. \<not> raises env k"
  shows "\<exists>st' new. run_loop env True names st = Ok st'
          \<and> registered st' = registered st @ new
          \<and> map i_name new = names
          \<and> list_all (\<lambda>i. i_broker i = alpaca_broker \<and> i_budget i = budget) new
          \<and> filter is_live_event (trace st') =
              filter is_live_event (trace st) @ concat (map (\<lambda>i. [Construct i, AddStrategy i]) new)
          \<and> length (time_reads (trace st')) = length (time_reads (trace st)) + length names"
  using assms(1)
proof (induction names arbitrary: st)
  case Nil
  then show ?case by simp
next
  case (Cons n names)
  then have n: "map_of mapping n \<noteq> None" and ns: "list_all (\<lambda>n. map_of mapping n \<noteq> None) names"
    by simp_all
  from dispatch_live_quiet [OF n assms(2), of st] obtain i where
    d: "dispatch env True n st =
            Ok (st\<lparr>trace := trace st @ [Time (time_at env (length (trace st))),
                                         Construct i, AddStrategy i],
                   registered := registered st @ [i]\<rparr>)"
    and i: "i_name i = n" "i_broker i = alpaca_broker" "i_budget i = budget"
    by blast
  define st1 where "st1 = st\<lparr>trace := trace st @ [Time (time_at env (length (trace st))),
                                         Construct i, AddStrategy i],
                   registered := registered st @ [i]\<rparr>"
  from Cons.IH [OF ns, of st1] obtain st' new where
    r: "run_loop env True names st1 = Ok st'"
    and reg: "registered st' = registered st1 @ new"
    and nm: "map i_name new = names"
    and br: "list_all (\<lambda>i. i_broker i = alpaca_broker \<and> i_budget i = budget) new"
    and ev: "filter is_live_event (trace st') =
              filter is_live_event (trace st1) @ concat (map (\<lambda>i. [Construct i, AddStrategy i]) new)"
    and tm: "length (time_reads (trace st')) = length (time_reads (trace st1)) + length names"
    by blast
  have tr: "time_reads (xs @ ys) = time_reads xs @ time_reads ys" for xs ys
    by (induction xs rule: time_reads.induct) simp_all
  have "run_loop env True (n # names) st = Ok st'"
    using d r by (simp add: st1_def)
  moreover have "registered st' = registered st @ (i # new)"
    using reg by (simp add: st1_def)
  moreover have "map i_name (i # new) = n # names"
    using nm i by simp
  moreover have "list_all (\<lambda>i. i_broker i = alpaca_broker \<and> i_budget i = budget) (i # new)"
    using br i by simp
  moreover have "filter is_live_event (trace st') =
      filter is_live_event (trace st) @ concat (map (\<lambda>i. [Construct i, AddStrategy i]) (i # new))"
    using ev by (simp add: st1_def)
  moreover have "length (time_reads (trace st')) =
      length (time_reads (trace st)) + length (n # names)"
    using tm by (simp add: st1_def tr)
  ultimately show ?case
    by (intro exI [of _ st'] exI [of _ "i # new"]) simp
qed

text \<open>
  C4. With the live flag set, all requested names registered and no collaborator raising,
  the loop completes; it constructs one strategy per requested name, in order, each with
  the shared broker and the budget, and registers it with the trader right after; the
  trader's \<^verbatim>\<open>run_all\<close> is called once, after all of that, with exactly these strategies
  registered; and the backtest entry point is never called. The live events of the
  invocation are: construct, add, ..., construct, add, run all.
\<close>

theorem live_run_is_deferred:
  assumes "list_all (\<lambda>n. map_of mapping n \<noteq> None) names" and "\<forall>k. \<not> raises env k"
  shows "(let out = main env True names (initial p);
              regs = registered (final out);
              tr = trace (final out)
          in failure (run_loop env True names (initial p)) = None
             \<and> map i_name regs = names
             \<and> list_all (\<lambda>i. i_broker i = alpaca_broker \<and> i_budget i = budget) regs
             \<and> constructed tr = regs
             \<and> added tr = regs
             \<and> run_alls tr = [regs]
             \<and> filter is_live_event tr =
                  concat (map (\<lambda>i. [Construct i, AddStrategy i]) regs) @ [RunAll regs]
             \<and> backtest_calls tr = []
             \<and> length (stats_files tr) = length names)"
proof -
  from run_loop_live_quiet [OF assms, of "initial p"] obtain st' new where
    r: "run_loop env True names (initial p) = Ok st'"
    and reg: "registered st' = new"
    and nm: "map i_name new = names"
    and br: "list_all (\<lambda>i. i_broker i = alpaca_broker \<and> i_budget i = budget) new"
    and ev: "filter is_live_event (trace st') = concat (map (\<lambda>i. [Construct i, AddStrategy i]) new)"
    by (auto simp: initial_def)
  define tr where "tr = trace (final (main env True names (initial p)))"
  have regs: "registered (final (main env True names (initial p))) = new"
    using main_registered [of env True names "initial p"] r reg by simp
  have live: "filter is_live_event tr =
      concat (map (\<lambda>i. [Construct i, AddStrategy i]) new) @ [RunAll new]"
    unfolding tr_def using r reg ev by (simp add: main_filter)
  have c: "constructed xs = constructed (filter is_live_event xs)" for xs
    by (induction xs rule: constructed.induct) simp_all
  have a: "added xs = added (filter is_live_event xs)" for xs
    by (induction xs rule: added.induct) simp_all
  have ra: "run_alls xs = run_alls (filter is_live_event xs)" for xs
    by (induction xs rule: run_alls.induct) simp_all
  have s: "stats_files xs = stats_files (filter (\<lambda>e. is_live_event e \<or> is_backtest_event e) xs)"
    for xs
    by (induction xs rule: stats_files.induct) simp_all
  have b: "backtest_calls xs = backtest_calls (filter is_backtest_event xs)" for xs
    by (induction xs rule: backtest_calls.induct) simp_all
  have nb: "filter is_backtest_event tr = []"
    unfolding tr_def using r run_loop_live_no_backtest_event [of env names "initial p"]
    by (simp add: main_filter initial_def)
  have c1: "constructed (concat (map (\<lambda>i. [Construct i, AddStrategy i]) is) @ [RunAll js]) = is"
    for "is" js
    by (induction "is") simp_all
  have a1: "added (concat (map (\<lambda>i. [Construct i, AddStrategy i]) is) @ [RunAll js]) = is"
    for "is" js
    by (induction "is") simp_all
  have r1: "run_alls (concat (map (\<lambda>i. [Construct i, AddStrategy i]) is) @ [RunAll js]) = [js]"
    for "is" js
    by (induction "is") simp_all
  have s1: "length (stats_files (concat (map (\<lambda>i. [Construct i, AddStrategy i]) is)
              @ [RunAll js])) = length is"
    for "is" js
    by (induction "is") simp_all
  have lb: "filter (\<lambda>e. is_live_event e \<or> is_backtest_event e) xs = filter is_live_event xs"
    if "filter is_backtest_event xs = []" for xs
    using that by (induction xs) (auto split: if_splits)
  have "constructed tr = new"
    by (subst c) (simp add: live c1)
  moreover have "added tr = new"
    by (subst a) (simp add: live a1)
  moreover have "run_alls tr = [new]"
    by (subst ra) (simp add: live r1)
  moreover have "backtest_calls tr = []"
    by (subst b) (simp add: nb)
  moreover have "length (stats_files tr) = length names"
    using nm by (subst s) (simp add: lb [OF nb] live s1 flip: length_map [of i_name new])
  ultimately show ?thesis
    using r regs nm br live by (simp add: Let_def tr_def)
qed

theorem live_run_is_deferred_witness:
  "list_all (\<lambda>n. map_of mapping n \<noteq> None) [''momentum_pandas'', ''diversification'']
   \<and> (\<forall>k. \<not> raises sample_env k)
   \<and> map i_name (registered (final (main sample_env True [''momentum_pandas'', ''diversification'']
         (initial sample_pool)))) = [''momentum_pandas'', ''diversification'']
   \<and> run_alls (trace (final (main sample_env True [''momentum_pandas'', ''diversification'']
         (initial sample_pool)))) =
       [registered (final (main sample_env True [''momentum_pandas'', ''diversification'']
         (initial sample_pool)))]
   \<and> backtest_calls (trace (final (main sample_env True [''momentum_pandas'', ''diversification'']
         (initial sample_pool)))) = []"
proof -
  have h1: "list_all (\<lambda>n. map_of mapping n \<noteq> None) [''momentum_pandas'', ''diversification'']"
    by (simp add: mapping_def)
  have h2: "\<forall>k. \<not> raises sample_env k"
    by (simp add: sample_env_def)
  from live_run_is_deferred [OF h1 h2, of sample_pool] h1 h2 show ?thesis
    by (simp add: Let_def)
qed


section \<open>The decimal numeral of the script is the decimal numeral\<close>

lemma below_ten:
  "(d :: nat) < 10 \<Longrightarrow> d = 0 \<or> d = 1 \<or> d = 2 \<or> d = 3 \<or> d = 4 \<or> d = 5 \<or> d = 6 \<or> d = 7
     \<or> d = 8 \<or> d = 9"
  by arith

lemma digit_char_facts:
  assumes "d < 10"
  shows "is_digit (digit_char d)" and "digit_value (digit_char d) = d"
    and "(digit_char d = CHR ''0'') = (d = 0)"
  using below_ten [OF assms]
  by (auto simp: digit_char_def is_digit_def digit_value_def)

lemma digit_value_facts:
  assumes "is_digit c"
  shows "digit_value c < 10" and "digit_char (digit_value c) = c"
    and "(digit_value c = 0) = (c = CHR ''0'')"
  using assms
  by (auto simp: digit_char_def is_digit_def digit_value_def)

lemma decimal_value_snoc:
  "decimal_value (xs @ [c]) = 10 * decimal_value xs + digit_value c"
  by (simp add: decimal_value_def)

lemma decimal_value_single: "decimal_value [c] = digit_value c"
  by (simp add: decimal_value_def)

text \<open>A numeral without a leading zero is not the numeral of zero.\<close>

lemma decimal_value_positive:
  "xs \<noteq> [] \<Longrightarrow> list_all is_digit xs \<Longrightarrow> hd xs \<noteq> CHR ''0'' \<Longrightarrow> 0 < decimal_value xs"
proof (induction xs rule: rev_induct)
  case Nil
  then show ?case by simp
next
  case (snoc c xs)
  show ?case
  proof (cases "xs = []")
    case True
    with snoc.prems digit_value_facts(3) [of c] show ?thesis
      by (simp add: decimal_value_single)
  next
    case False
    with snoc show ?thesis
      by (simp add: decimal_value_snoc)
  qed
qed

lemma digits_is_decimal: "is_decimal_of (digits n) n"
proof (induction n rule: digits.induct)
  case (1 n)
  show ?case
  proof (cases "n < 10")
    case True
    then show ?thesis
      by (auto simp: digits_small is_decimal_of_def digit_char_facts decimal_value_single)
  next
    case False
    then have big: "10 \<le> n" by simp
    from 1 False have ih: "is_decimal_of (digits (n div 10)) (n div 10)"
      by simp
    from big have pos: "0 < n div 10"
      by simp
    have m: "n mod 10 < 10"
      by simp
    from ih pos have h: "hd (digits (n div 10)) \<noteq> CHR ''0''"
      by (auto simp: is_decimal_of_def decimal_value_single digit_value_def)
    from ih have ne: "digits (n div 10) \<noteq> []"
      by (simp add: is_decimal_of_def)
    from ih h ne show ?thesis
      by (simp add: digits_big [OF big] is_decimal_of_def decimal_value_snoc
            digit_char_facts [OF m])
  qed
qed

text \<open>And there is no other numeral of the number.\<close>

lemma decimal_is_digits: "is_decimal_of s n \<Longrightarrow> s = digits n"
proof (induction s arbitrary: n rule: rev_induct)
  case Nil
  then show ?case by (simp add: is_decimal_of_def)
next
  case (snoc c xs)
  from snoc.prems have c: "is_digit c" and ds: "list_all is_digit xs"
    and v: "10 * decimal_value xs + digit_value c = n"
    by (simp_all add: is_decimal_of_def decimal_value_snoc)
  show ?case
  proof (cases "xs = []")
    case True
    with v have "n = digit_value c"
      by (simp add: decimal_value_def)
    with True digit_value_facts [OF c] show ?thesis
      by (simp add: digits_small)
  next
    case False
    with snoc.prems have h: "hd xs \<noteq> CHR ''0''"
      by (auto simp: is_decimal_of_def)
    from decimal_value_positive [OF False ds h] v have big: "10 \<le> n"
      by simp
    have "(10 * a + b) div 10 = a \<and> (10 * a + b) mod 10 = b" if "b < 10" for a b :: nat
      using that by simp
    from this [OF digit_value_facts(1) [OF c], of "decimal_value xs"] v
    have q: "n div 10 = decimal_value xs" and r: "n mod 10 = digit_value c"
      by simp_all
    from False ds h q have "is_decimal_of xs (n div 10)"
      by (simp add: is_decimal_of_def)
    from snoc.IH [OF this] r digit_value_facts(2) [OF c] show ?thesis
      by (simp add: digits_big [OF big])
  qed
qed


section \<open>The path of the stats file\<close>

lemma registered_class:
  assumes "map_of mapping n = Some e" and "map_of e ''class'' = Some (PClass c)"
  obtains p kw where "resolve e = Inr p" "strategy_class p = PClass c" "kwargs p = PDict kw"
proof -
  from resolved [OF assms(1)] obtain p c' kw where
    r: "resolve e = Inr p" "strategy_class p = PClass c'" "kwargs p = PDict kw" .
  from resolve_fields(1) [OF r(1)] assms(2) r(2) have "c' = c"
    by simp
  with r that show thesis
    by blast
qed

lemma dispatch_stats:
  assumes "map_of mapping n = Some e" and "map_of e ''class'' = Some (PClass c)"
  shows "time_reads (new_events st (dispatch env live n st)) = [time_at env (length (trace st))]"
    and "stats_files (new_events st (dispatch env live n st)) = []
         \<or> stats_files (new_events st (dispatch env live n st)) =
             [stats_file_path c (time_at env (length (trace st)))]"
    and "failure (dispatch env live n st) = None \<Longrightarrow>
         stats_files (new_events st (dispatch env live n st)) =
           [stats_file_path c (time_at env (length (trace st)))]"
proof -
  from registered_class [OF assms] obtain p kw where
    r: "resolve e = Inr p" "strategy_class p = PClass c" "kwargs p = PDict kw" .
  have "time_reads (new_events st (dispatch env live n st)) = [time_at env (length (trace st))]
      \<and> (stats_files (new_events st (dispatch env live n st)) = []
         \<or> stats_files (new_events st (dispatch env live n st)) =
             [stats_file_path c (time_at env (length (trace st)))])
      \<and> (failure (dispatch env live n st) = None \<longrightarrow>
         stats_files (new_events st (dispatch env live n st)) =
           [stats_file_path c (time_at env (length (trace st)))])"
  proof (cases live)
    case True
    with dispatch_live [OF assms(1) r, of env st] show ?thesis
      by (simp add: Let_def)
  next
    case False
    with dispatch_backtest [OF assms(1) r, of env st] show ?thesis
      by (simp add: Let_def)
  qed
  then show "time_reads (new_events st (dispatch env live n st)) =
      [time_at env (length (trace st))]"
    and "stats_files (new_events st (dispatch env live n st)) = []
         \<or> stats_files (new_events st (dispatch env live n st)) =
             [stats_file_path c (time_at env (length (trace st)))]"
    and "failure (dispatch env live n st) = None \<Longrightarrow>
         stats_files (new_events st (dispatch env live n st)) =
           [stats_file_path c (time_at env (length (trace st)))]"
    by simp_all
qed

text \<open>For a clock that counts from the epoch on, the number in the path is the numeral the
  script makes of the whole seconds of the reading.\<close>

lemma stats_file_path_floor:
  "0 \<le> t \<Longrightarrow> stats_file_path c t = ''logs/strategy_'' @ c @ ''_'' @ digits (nat \<lfloor>t\<rfloor>) @ ''.csv''"
  by (simp add: stats_file_path_def py_int_def py_str_def)

text \<open>
  C5. Every dispatch of a registered strategy reads the wall clock once, when it starts,
  and any stats-file path it hands on (to the constructor on the live path, to the backtest
  entry point on the backtest path) is \<^verbatim>\<open>logs/strategy_\<close>, the name of the strategy class,
  \<^verbatim>\<open>_\<close>, the decimal numeral of the whole seconds of that reading (its floor, the clock
  counting from the epoch on), \<^verbatim>\<open>.csv\<close>; a dispatch that completes hands on exactly one.
  The numeral is the one string of digits without a leading zero whose value is that
  number of seconds. So any other dispatch of the same strategy class that starts within
  the same second gets the same path.
\<close>

theorem stats_file_naming:
  assumes "map_of mapping n = Some e" and "map_of e ''class'' = Some (PClass c)"
    and "0 \<le> time_at env (length (trace st))"
  shows "\<exists>num.
           is_decimal_of num (nat \<lfloor>time_at env (length (trace st))\<rfloor>)
         \<and> (\<forall>s. is_decimal_of s (nat \<lfloor>time_at env (length (trace st))\<rfloor>) \<longrightarrow> s = num)
         \<and> time_reads (new_events st (dispatch env live n st)) =
             [time_at env (length (trace st))]
         \<and> (stats_files (new_events st (dispatch env live n st)) = []
            \<or> stats_files (new_events st (dispatch env live n st)) =
                [''logs/strategy_'' @ c @ ''_'' @ num @ ''.csv''])
         \<and> (failure (dispatch env live n st) = None \<longrightarrow>
              stats_files (new_events st (dispatch env live n st)) =
                [''logs/strategy_'' @ c @ ''_'' @ num @ ''.csv''])
         \<and> (\<forall>n' e' env' st' live'.
               map_of mapping n' = Some e' \<and> map_of e' ''class'' = Some (PClass c)
               \<and> 0 \<le> time_at env' (length (trace st'))
               \<and> \<lfloor>time_at env' (length (trace st'))\<rfloor> = \<lfloor>time_at env (length (trace st))\<rfloor>
               \<and> failure (dispatch env' live' n' st') = None
             \<longrightarrow> stats_files (new_events st' (dispatch env' live' n' st')) =
                   [''logs/strategy_'' @ c @ ''_'' @ num @ ''.csv''])"
proof -
  define t where "t = time_at env (length (trace st))"
  define num where "num = digits (nat \<lfloor>t\<rfloor>)"
  have p: "stats_file_path c t = ''logs/strategy_'' @ c @ ''_'' @ num @ ''.csv''"
    using assms(3) by (simp add: stats_file_path_floor t_def num_def)
  have a: "is_decimal_of num (nat \<lfloor>t\<rfloor>)"
    by (simp add: num_def digits_is_decimal)
  have b: "\<forall>s. is_decimal_of s (nat \<lfloor>t\<rfloor>) \<longrightarrow> s = num"
    by (simp add: num_def decimal_is_digits)
  have c1: "time_reads (new_events st (dispatch env live n st)) = [t]"
    unfolding t_def by (rule dispatch_stats(1) [OF assms(1,2)])
  have c2: "stats_files (new_events st (dispatch env live n st)) = []
            \<or> stats_files (new_events st (dispatch env live n st)) =
                [''logs/strategy_'' @ c @ ''_'' @ num @ ''.csv'']"
    using dispatch_stats(2) [OF assms(1,2), of st env live] by (simp add: p flip: t_def)
  have c3: "failure (dispatch env live n st) = None \<longrightarrow>
              stats_files (new_events st (dispatch env live n st)) =
                [''logs/strategy_'' @ c @ ''_'' @ num @ ''.csv'']"
    using dispatch_stats(3) [OF assms(1,2), of env live st] by (simp add: p flip: t_def)
  have c4: "\<forall>n' e' env' st' live'.
               map_of mapping n' = Some e' \<and> map_of e' ''class'' = Some (PClass c)
               \<and> 0 \<le> time_at env' (length (trace st'))
               \<and> \<lfloor>time_at env' (length (trace st'))\<rfloor> = \<lfloor>t\<rfloor>
               \<and> failure (dispatch env' live' n' st') = None
             \<longrightarrow> stats_files (new_events st' (dispatch env' live' n' st')) =
                   [''logs/strategy_'' @ c @ ''_'' @ num @ ''.csv'']"
  proof (intro allI impI)
    fix n' e' env' st' live'
    assume h: "map_of mapping n' = Some e' \<and> map_of e' ''class'' = Some (PClass c)
               \<and> 0 \<le> time_at env' (length (trace st'))
               \<and> \<lfloor>time_at env' (length (trace st'))\<rfloor> = \<lfloor>t\<rfloor>
               \<and> failure (dispatch env' live' n' st') = None"
    then have "stats_file_path c (time_at env' (length (trace st'))) =
        ''logs/strategy_'' @ c @ ''_'' @ num @ ''.csv''"
      by (simp add: stats_file_path_floor num_def)
    with dispatch_stats(3) [of n' e' c env' live' st'] h
    show "stats_files (new_events st' (dispatch env' live' n' st')) =
                   [''logs/strategy_'' @ c @ ''_'' @ num @ ''.csv'']"
      by simp
  qed
  show ?thesis
    using a b c1 c2 c3 c4 unfolding t_def by (intro exI [of _ num] conjI)
qed

theorem stats_file_naming_witness:
  "map_of mapping ''simple'' =
     Some [(''class'', PClass ''Simple''),
           (''backtesting_datasource'', PClass ''PandasDataBacktesting''),
           (''kwargs'', PDict []), (''backtesting_cache'', PBool False),
           (''config'', PNone), (''pandas_data'', PPool)]
   \<and> 0 \<le> time_at sample_env (length (trace (initial sample_pool)))
   \<and> \<lfloor>time_at sample_env (length (trace (initial sample_pool)))\<rfloor> = 1551312000
   \<and> is_decimal_of ''1551312000'' 1551312000
   \<and> stats_files (new_events (initial sample_pool)
         (dispatch sample_env True ''simple'' (initial sample_pool))) =
       [''logs/strategy_Simple_1551312000.csv'']"
proof -
  have c: "map_of [(''class'', PClass ''Simple''),
           (''backtesting_datasource'', PClass ''PandasDataBacktesting''),
           (''kwargs'', PDict []), (''backtesting_cache'', PBool False),
           (''config'', PNone), (''pandas_data'', PPool)] ''class'' = Some (PClass ''Simple'')"
    by simp
  have t: "time_at sample_env (length (trace (initial sample_pool))) = 3102624001 / 2"
    by (simp add: sample_env_def)
  have z: "0 \<le> time_at sample_env (length (trace (initial sample_pool)))"
    by (simp add: t)
  have f: "\<lfloor>time_at sample_env (length (trace (initial sample_pool)))\<rfloor> = 1551312000"
    by (simp add: t)
  have "digits 1551312000 = ''1551312000''"
    by (simp add: digits_small digits_big digit_char_def)
  with digits_is_decimal [of 1551312000] have d: "is_decimal_of ''1551312000'' 1551312000"
    by simp
  have nf: "nat \<lfloor>time_at sample_env (length (trace (initial sample_pool)))\<rfloor> = 1551312000"
    by (simp add: t)
  have l: "failure (dispatch sample_env True ''simple'' (initial sample_pool)) = None"
    by (simp add: sample_live_simple)
  from stats_file_naming [OF entry_simple c z, of True] obtain num where
    u: "\<forall>s. is_decimal_of s (nat \<lfloor>time_at sample_env (length (trace (initial sample_pool)))\<rfloor>)
          \<longrightarrow> s = num"
    and s: "failure (dispatch sample_env True ''simple'' (initial sample_pool)) = None \<longrightarrow>
        stats_files (new_events (initial sample_pool)
          (dispatch sample_env True ''simple'' (initial sample_pool))) =
        [''logs/strategy_'' @ ''Simple'' @ ''_'' @ num @ ''.csv'']"
    by (elim exE conjE) (rule that, assumption+)
  from u [rule_format, of "''1551312000''"] d nf have "num = ''1551312000''"
    by (simp only:)
  with s l have "stats_files (new_events (initial sample_pool)
         (dispatch sample_env True ''simple'' (initial sample_pool))) =
       [''logs/strategy_Simple_1551312000.csv'']"
    by simp
  with z f d show ?thesis
    by (simp add: entry_simple)
qed


section \<open>The backtest path\<close>

lemma labels_relabel: "labels (relabel n q) = replicate (length q) n"
  by (induction q) (auto simp: labels_def relabel_def)

lemma length_relabel: "length (relabel n q) = length q"
  by (simp add: relabel_def)

lemma keys_relabel: "map fst (relabel n q) = map fst q"
  by (induction q) (auto simp: relabel_def)

text \<open>
  C8. A backtest dispatch that completes has, in this order: read the wall clock, read
  the performance counter, called the backtest entry point with the budget 40000 and the
  window from \<open>backtesting_start\<close> to \<open>backtesting_end\<close>, read the performance counter
  again, printed the difference of the two readings, logged the benchmark line, and called
  the benchmark calculator once, for \<open>SPY\<close> over the same window as the backtest. Nothing
  the backtest returns enters that call. The two readings are those the performance
  counter gives as second and as fourth interaction of the dispatch, around the backtest
  call; when the counter never runs backwards the printed time is not negative.
\<close>

theorem benchmark_after_backtest:
  assumes "dispatch env False n st = Ok st'"
    and "mono (perf_at env)"
  shows "\<exists>bc.
           trace st' = trace st @
             [Time (time_at env (length (trace st))),
              PerfCounter (perf_at env (length (trace st) + 1)),
              Backtest bc,
              PerfCounter (perf_at env (length (trace st) + 3)),
              PrintElapsed (perf_at env (length (trace st) + 3)
                            - perf_at env (length (trace st) + 1)),
              LogInfo ''*** Benchmark Performance for SPY ***'',
              CalculateReturns ''SPY'' (b_start bc) (b_end bc)]
           \<and> b_name bc = n \<and> b_budget bc = 40000
           \<and> b_start bc = (2019, 2, 28, 0, 0, 0) \<and> b_end bc = (2019, 12, 1, 0, 0, 0)
           \<and> benchmark_calls (new_events st (dispatch env False n st)) =
               [(''SPY'', backtesting_start, backtesting_end)]
           \<and> 0 \<le> perf_at env (length (trace st) + 3) - perf_at env (length (trace st) + 1)"
proof (cases "map_of mapping n")
  case None
  with assms(1) show ?thesis
    by (simp add: dispatch_unknown)
next
  case (Some e)
  from resolved [OF Some] obtain p c kw where
    r: "resolve e = Inr p" "strategy_class p = PClass c" "kwargs p = PDict kw" .
  define k where "k = length (trace st)"
  from assms(2) have m: "perf_at env (Suc k) \<le> perf_at env (Suc (Suc (Suc k)))"
    by (simp add: monoD)
  define bc where "bc = \<lparr>b_class = c, b_name = n, b_budget = budget,
                   b_datasource = backtesting_datasource p,
                   b_start = backtesting_start, b_end = backtesting_end,
                   b_pandas_data = relabel n (pool st),
                   b_stats_file = stats_file_path c (time_at env k),
                   b_config = config p, b_kwargs = kw\<rparr>"
  from dispatch_backtest [OF Some r, of env st] assms(1)
  have "st' = st\<lparr>pool := relabel n (pool st),
                 trace := trace st @ [Time (time_at env k), PerfCounter (perf_at env (Suc k)),
                   Backtest bc, PerfCounter (perf_at env (Suc (Suc (Suc k)))),
                   PrintElapsed (perf_at env (Suc (Suc (Suc k))) - perf_at env (Suc k)),
                   LogInfo (''*** Benchmark Performance for '' @ benchmark_asset @ '' ***''),
                   CalculateReturns benchmark_asset backtesting_start backtesting_end]\<rparr>"
    by (simp add: Let_def k_def bc_def split: if_splits)
  with m assms(1) show ?thesis
    by (intro exI [of _ bc])
       (simp add: bc_def k_def benchmark_asset_def backtesting_start_def backtesting_end_def
          budget_def numeral_3_eq_3)
qed

lemma sample_backtest_buy_and_hold:
  "dispatch sample_env False ''buy_and_hold'' (initial sample_pool) =
     Ok \<lparr>pool = relabel ''buy_and_hold'' sample_pool, registered = [],
         trace = [Time (3102624001 / 2), PerfCounter 1,
           Backtest \<lparr>b_class = ''BuyAndHold'', b_name = ''buy_and_hold'', b_budget = 40000,
             b_datasource = PClass ''PandasDataBacktesting'',
             b_start = (2019, 2, 28, 0, 0, 0), b_end = (2019, 12, 1, 0, 0, 0),
             b_pandas_data = relabel ''buy_and_hold'' sample_pool,
             b_stats_file = ''logs/strategy_BuyAndHold_1551312000.csv'',
             b_config = PNone, b_kwargs = []\<rparr>,
           PerfCounter 3, PrintElapsed 2, LogInfo ''*** Benchmark Performance for SPY ***'',
           CalculateReturns ''SPY'' (2019, 2, 28, 0, 0, 0) (2019, 12, 1, 0, 0, 0)]\<rparr>"
proof -
  have e: "map_of mapping ''buy_and_hold'' =
     Some [(''class'', PClass ''BuyAndHold''),
           (''backtesting_datasource'', PClass ''PandasDataBacktesting''),
           (''kwargs'', PDict []), (''backtesting_cache'', PBool False),
           (''config'', PNone), (''pandas_data'', PPool)]"
    by (simp add: mapping_def)
  have r: "resolve [(''class'', PClass ''BuyAndHold''),
           (''backtesting_datasource'', PClass ''PandasDataBacktesting''),
           (''kwargs'', PDict []), (''backtesting_cache'', PBool False),
           (''config'', PNone), (''pandas_data'', PPool)] =
     Inr \<lparr>strategy_class = PClass ''BuyAndHold'',
          backtesting_datasource = PClass ''PandasDataBacktesting'',
          pandas_data = PPool, kwargs = PDict [], config = PNone\<rparr>"
    by (simp add: resolve_def subscript_def has_key_def)
  have q: "raises sample_env k = False" "time_at sample_env k = 3102624001 / 2"
    "perf_at sample_env k = of_nat k" for k
    by (simp_all add: sample_env_def)
  from dispatch_backtest [OF e r, of "''BuyAndHold''" "[]" sample_env "initial sample_pool"]
  show ?thesis
    by (simp add: Let_def q initial_def sample_path budget_def benchmark_asset_def
          backtesting_start_def backtesting_end_def)
qed

theorem benchmark_after_backtest_witness:
  "failure (dispatch sample_env False ''buy_and_hold'' (initial sample_pool)) = None
   \<and> mono (perf_at sample_env)
   \<and> benchmark_calls (new_events (initial sample_pool)
        (dispatch sample_env False ''buy_and_hold'' (initial sample_pool))) =
       [(''SPY'', (2019, 2, 28, 0, 0, 0), (2019, 12, 1, 0, 0, 0))]
   \<and> perf_at sample_env 3 - perf_at sample_env 1 = 2"
proof -
  have m: "mono (perf_at sample_env)"
    by (simp add: sample_env_def mono_def)
  have e: "perf_at sample_env 3 - perf_at sample_env 1 = 2"
    by (simp add: sample_env_def)
  from benchmark_after_backtest [OF sample_backtest_buy_and_hold m] m e show ?thesis
    by (simp add: sample_backtest_buy_and_hold backtesting_start_def backtesting_end_def)
qed


text \<open>Every entry that binds the shared pool also names a backtest data source.\<close>

lemma pool_bound_has_datasource:
  assumes "map_of mapping n = Some e" and "map_of e ''pandas_data'' = Some PPool"
  shows "map_of e ''backtesting_datasource'' \<noteq> Some PNone"
  using assms by (auto simp: mapping_def split: if_splits)

lemma backtest_relabels:
  assumes "map_of mapping n = Some e" and "map_of e ''pandas_data'' = Some PPool"
  shows "\<exists>t tic bc. take 3 (new_events st (dispatch env False n st)) =
            [Time t, PerfCounter tic, Backtest bc]
          \<and> backtest_calls (new_events st (dispatch env False n st)) = [bc]
          \<and> b_name bc = n \<and> b_pandas_data bc = relabel n (pool st)"
    and "pool (final (dispatch env False n st)) = relabel n (pool st)"
proof -
  from resolved [OF assms(1)] obtain p c kw where
    r: "resolve e = Inr p" "strategy_class p = PClass c" "kwargs p = PDict kw" .
  from resolve_fields(5) [OF r(1)] assms(2) have pd: "pandas_data p = PPool"
    by simp
  from resolve_fields(2) [OF r(1)] pool_bound_has_datasource [OF assms]
  have ds: "backtesting_datasource p \<noteq> PNone"
    by simp
  define k where "k = length (trace st)"
  define bc where "bc = \<lparr>b_class = c, b_name = n, b_budget = budget,
                   b_datasource = backtesting_datasource p,
                   b_start = backtesting_start, b_end = backtesting_end,
                   b_pandas_data = relabel n (pool st),
                   b_stats_file = stats_file_path c (time_at env k),
                   b_config = config p, b_kwargs = kw\<rparr>"
  from dispatch_backtest [OF assms(1) r, of env st] pd ds
  show "\<exists>t tic bc. take 3 (new_events st (dispatch env False n st)) =
            [Time t, PerfCounter tic, Backtest bc]
          \<and> backtest_calls (new_events st (dispatch env False n st)) = [bc]
          \<and> b_name bc = n \<and> b_pandas_data bc = relabel n (pool st)"
    by (intro exI [of _ "time_at env k"] exI [of _ "perf_at env (Suc k)"] exI [of _ bc])
       (simp add: Let_def k_def bc_def)
  from dispatch_backtest [OF assms(1) r, of env st] pd ds
  show "pool (final (dispatch env False n st)) = relabel n (pool st)"
    by (simp add: Let_def)
qed

text \<open>
  C6 (as the code has it). A backtest dispatch of a strategy bound to the shared pool
  reads the wall clock, sets the label of every dataset of the pool to the name being
  dispatched, reads the performance counter and calls the backtest entry point with the
  pool so labelled; the pool of the state is the relabelled one (rewritten in place: keys,
  order and everything else of a dataset stay). After a second such dispatch in the same
  invocation every label is the second name; so no label is the first name any more when
  the two names differ.
\<close>

theorem labels_rewritten_before_backtest:
  assumes "map_of mapping n = Some e" and "map_of e ''pandas_data'' = Some PPool"
  shows "(\<exists>t tic bc. take 3 (new_events st (dispatch env False n st)) =
              [Time t, PerfCounter tic, Backtest bc]
            \<and> backtest_calls (new_events st (dispatch env False n st)) = [bc]
            \<and> b_name bc = n \<and> b_pandas_data bc = relabel n (pool st)
            \<and> labels (b_pandas_data bc) = replicate (length (pool st)) n)
         \<and> pool (final (dispatch env False n st)) = relabel n (pool st)
         \<and> map fst (pool (final (dispatch env False n st))) = map fst (pool st)
         \<and> (\<forall>n2 e2 st1. map_of mapping n2 = Some e2 \<and> map_of e2 ''pandas_data'' = Some PPool
               \<and> dispatch env False n st = Ok st1
             \<longrightarrow> labels (pool (final (dispatch env False n2 st1))) =
                   replicate (length (pool st)) n2
                 \<and> (n2 \<noteq> n \<longrightarrow> n \<notin> set (labels (pool (final (dispatch env False n2 st1))))))"
proof -
  from backtest_relabels(1) [OF assms, where env = env and st = st] obtain t tic bc where
    a: "take 3 (new_events st (dispatch env False n st)) = [Time t, PerfCounter tic, Backtest bc]"
      "backtest_calls (new_events st (dispatch env False n st)) = [bc]"
      "b_name bc = n" "b_pandas_data bc = relabel n (pool st)"
    by blast
  from a(4) have "labels (b_pandas_data bc) = replicate (length (pool st)) n"
    by (simp add: labels_relabel)
  with a have first: "\<exists>t tic bc. take 3 (new_events st (dispatch env False n st)) =
              [Time t, PerfCounter tic, Backtest bc]
            \<and> backtest_calls (new_events st (dispatch env False n st)) = [bc]
            \<and> b_name bc = n \<and> b_pandas_data bc = relabel n (pool st)
            \<and> labels (b_pandas_data bc) = replicate (length (pool st)) n"
    by blast
  have p: "pool (final (dispatch env False n st)) = relabel n (pool st)"
    by (rule backtest_relabels(2) [OF assms])
  have k: "map fst (pool (final (dispatch env False n st))) = map fst (pool st)"
    by (simp add: p keys_relabel)
  have two: "\<forall>n2 e2 st1. map_of mapping n2 = Some e2 \<and> map_of e2 ''pandas_data'' = Some PPool
               \<and> dispatch env False n st = Ok st1
             \<longrightarrow> labels (pool (final (dispatch env False n2 st1))) =
                   replicate (length (pool st)) n2
                 \<and> (n2 \<noteq> n \<longrightarrow> n \<notin> set (labels (pool (final (dispatch env False n2 st1)))))"
  proof (intro allI impI)
    fix n2 e2 st1
    assume h: "map_of mapping n2 = Some e2 \<and> map_of e2 ''pandas_data'' = Some PPool
           \<and> dispatch env False n st = Ok st1"
    from p h have "pool st1 = relabel n (pool st)"
      by simp
    moreover from backtest_relabels(2) [where n = n2 and e = e2 and env = env and st = st1] h
    have "pool (final (dispatch env False n2 st1)) = relabel n2 (pool st1)"
      by simp
    ultimately show "labels (pool (final (dispatch env False n2 st1))) =
                   replicate (length (pool st)) n2
                 \<and> (n2 \<noteq> n \<longrightarrow> n \<notin> set (labels (pool (final (dispatch env False n2 st1)))))"
      by (simp add: labels_relabel length_relabel)
  qed
  show ?thesis
    by (intro conjI first p k two)
qed

lemma sample_backtest_simple:
  "\<exists>s. dispatch sample_env False ''simple'' st = Ok s \<and> pool s = relabel ''simple'' (pool st)"
proof -
  have q: "raises sample_env k = False" for k
    by (simp add: sample_env_def)
  from dispatch_backtest [OF entry_simple resolve_simple, of "''Simple''" "[]" sample_env st]
  show ?thesis
    by (simp add: Let_def q)
qed

theorem labels_rewritten_before_backtest_witness:
  "map_of mapping ''simple'' =
     Some [(''class'', PClass ''Simple''),
           (''backtesting_datasource'', PClass ''PandasDataBacktesting''),
           (''kwargs'', PDict []), (''backtesting_cache'', PBool False),
           (''config'', PNone), (''pandas_data'', PPool)]
   \<and> labels sample_pool = [''my_strategy'']
   \<and> labels (pool (final (dispatch sample_env False ''simple'' (initial sample_pool)))) =
       [''simple'']"
proof -
  have b: "map_of [(''class'', PClass ''Simple''),
           (''backtesting_datasource'', PClass ''PandasDataBacktesting''),
           (''kwargs'', PDict []), (''backtesting_cache'', PBool False),
           (''config'', PNone), (''pandas_data'', PPool)] ''pandas_data'' = Some PPool"
    by simp
  have l: "labels (relabel ''simple'' sample_pool) = [''simple'']"
    by (simp add: labels_relabel sample_pool_def)
  from labels_rewritten_before_backtest [OF entry_simple b, where st = "initial sample_pool"
      and env = sample_env]
  have "pool (final (dispatch sample_env False ''simple'' (initial sample_pool))) =
      relabel ''simple'' sample_pool"
    by (simp add: initial_def)
  with l show ?thesis
    by (simp add: entry_simple labels_def sample_pool_def)
qed

text \<open>
  The claim as stated fails when the second dispatch has the name of the first (a name
  may be requested twice): after the second backtest of \<open>simple\<close> the labels of the pool
  still are the name of the first dispatch.
\<close>

theorem same_name_twice_counterexample:
  "failure (run_loop sample_env False [''simple'', ''simple''] (initial sample_pool)) = None
   \<and> labels (pool (final (run_loop sample_env False [''simple''] (initial sample_pool)))) =
       [''simple'']
   \<and> labels (pool (final (run_loop sample_env False [''simple'', ''simple'']
        (initial sample_pool)))) = [''simple'']"
proof -
  from sample_backtest_simple [of "initial sample_pool"] obtain s1 where
    s1: "dispatch sample_env False ''simple'' (initial sample_pool) = Ok s1"
      "pool s1 = relabel ''simple'' sample_pool"
    by (auto simp: initial_def)
  from sample_backtest_simple [of s1] obtain s2 where
    s2: "dispatch sample_env False ''simple'' s1 = Ok s2"
      "pool s2 = relabel ''simple'' (pool s1)"
    by auto
  have n: "length sample_pool = Suc 0"
    by (simp add: sample_pool_def)
  show ?thesis
    by (simp add: s1 s2 labels_relabel length_relabel n)
qed


section \<open>Loading a price file\<close>

lemma parse_row_well_formed:
  assumes "well_formed_row r"
  shows "parse_row [0, 1, 2, 3, 4, 6] r = Some (canonical r)"
    and "length (snd (canonical r)) = 5"
    and "row_date r = Some (fst (canonical r))"
    and "in_horizon ds de r = (ds \<le> fst (canonical r) \<and> fst (canonical r) \<le> de)"
  using assms
  by (auto simp: well_formed_row_def parse_row_def canonical_def row_date_def in_horizon_def
        split: list.splits cell.splits)

lemma parse_rows_well_formed:
  "list_all well_formed_row body \<Longrightarrow>
     parse_rows [0, 1, 2, 3, 4, 6] body = Some (map canonical body)"
  by (induction body) (simp_all add: parse_row_well_formed(1) del: One_nat_def)

lemma take_five:
  "length vs = 5 \<Longrightarrow>
     [vs ! 0, vs ! Suc 0, vs ! Suc (Suc 0), vs ! Suc (Suc (Suc 0)),
      vs ! Suc (Suc (Suc (Suc 0)))] = (vs :: cell list)"
  by (simp add: list_eq_iff_nth_eq less_Suc_eq nth_Cons')

text \<open>What the startup loop builds for a ticker whose file is well formed.\<close>

lemma load_ticker_well_formed:
  assumes "files (''data/'' @ ticker @ ''.csv'') = Some file" and "well_formed file"
  shows "load_ticker files ticker =
     Some (\<lparr>symbol = ticker, asset_type = ''stock''\<rparr>,
           \<lparr>strategy = ''my_strategy'', asset = \<lparr>symbol = ticker, asset_type = ''stock''\<rparr>,
            df = \<lparr>index_name = ''datetime'',
                   columns = [''open'', ''high'', ''low'', ''close'', ''volume''],
                   rows = filter (\<lambda>r. (2019, 1, 6, 0, 0, 0) \<le> fst r \<and> fst r \<le> (2019, 12, 15, 0, 0, 0))
                            (sort_key fst (map canonical (tl file)))\<rparr>,
            date_start = (2019, 1, 6, 0, 0, 0), date_end = (2019, 12, 15, 0, 0, 0),
            timestep = ''day''\<rparr>)"
proof -
  from assms(2) obtain header body where f: "file = header # body"
    and wf: "list_all well_formed_row body"
    by (auto simp: well_formed_def split: list.splits)
  have c: "read_csv file [0, 1, 2, 3, 4, 6]
              [''Date'', ''Open'', ''High'', ''Low'', ''Close'', ''Volume''] =
      Some \<lparr>index_name = ''Date'', columns = [''Open'', ''High'', ''Low'', ''Close'', ''Volume''],
            rows = map canonical body\<rparr>"
    by (simp add: read_csv_def f parse_rows_well_formed [OF wf] del: One_nat_def)
  have one: "(case canonical r of (d, vs) \<Rightarrow>
        (d, [vs ! 0, vs ! Suc 0, vs ! Suc (Suc 0), vs ! Suc (Suc (Suc 0)),
             vs ! Suc (Suc (Suc (Suc 0)))])) = canonical r"
    if "well_formed_row r" for r
  proof (cases "canonical r")
    case (Pair d vs)
    with parse_row_well_formed(2) [OF that] have "length vs = 5"
      by simp
    with Pair take_five [of vs] show ?thesis
      by simp
  qed
  have s: "select_columns [''open'', ''high'', ''low'', ''close'', ''volume'']
      (rename_columns [(''Date'', ''date''), (''Open'', ''open''), (''High'', ''high''),
                       (''Low'', ''low''), (''Close'', ''close''), (''Volume'', ''volume'')]
         \<lparr>index_name = ''Date'', columns = [''Open'', ''High'', ''Low'', ''Close'', ''Volume''],
            rows = map canonical body\<rparr>) =
      Some \<lparr>index_name = ''Date'', columns = [''open'', ''high'', ''low'', ''close'', ''volume''],
            rows = map canonical body\<rparr>"
    using wf one by (simp add: select_columns_def rename_columns_def list_all_iff)
  show ?thesis
    unfolding load_ticker_def Let_def assms(1) option.case c s
    by (simp add: Data_def set_index_name_def f)
qed


text \<open>
  C7 (as amended). For every well-formed source file the dataset loaded at startup has exactly the five
  canonical fields open, high, low, close, volume in every record (the sixth column of
  the file is dropped), its records are the rows of the file whose dates lie within the
  horizon from 2019-01-06 to 2019-12-15, as many as there are such rows, and they are
  sorted ascending by date whatever the order of the rows in the file. The order is
  strict when the file has one row per date within the horizon, as a series of daily bars
  has; rows outside the horizon do not matter for it.
\<close>

theorem loaded_dataset_shape:
  assumes "files (''data/'' @ ticker @ ''.csv'') = Some file" and "well_formed file"
  shows "\<exists>d. load_ticker files ticker = Some (\<lparr>symbol = ticker, asset_type = ''stock''\<rparr>, d)
     \<and> columns (df d) = [''open'', ''high'', ''low'', ''close'', ''volume'']
     \<and> list_all (\<lambda>r. length (snd r) = 5) (rows (df d))
     \<and> mset (rows (df d)) =
         mset (map canonical
           (filter (in_horizon (2019, 1, 6, 0, 0, 0) (2019, 12, 15, 0, 0, 0)) (tl file)))
     \<and> length (rows (df d)) =
         length (filter (in_horizon (2019, 1, 6, 0, 0, 0) (2019, 12, 15, 0, 0, 0)) (tl file))
     \<and> sorted (map fst (rows (df d)))
     \<and> (distinct (map row_date
            (filter (in_horizon (2019, 1, 6, 0, 0, 0) (2019, 12, 15, 0, 0, 0)) (tl file)))
         \<longrightarrow> sorted_wrt (<) (map fst (rows (df d))))"
proof -
  define ds :: datetime where "ds = (2019, 1, 6, 0, 0, 0)"
  define de :: datetime where "de = (2019, 12, 15, 0, 0, 0)"
  define body where "body = tl file"
  define P :: "datetime \<times> cell list \<Rightarrow> bool" where "P = (\<lambda>r. ds \<le> fst r \<and> fst r \<le> de)"
  define rs where "rs = filter P (sort_key fst (map canonical body))"
  define kept where "kept = filter (in_horizon ds de) body"
  from assms(2) have wf: "list_all well_formed_row body"
    by (auto simp: well_formed_def body_def split: list.splits)
  then have wfr: "well_formed_row r" if "r \<in> set body" for r
    using that by (simp add: list_all_iff)
  then have wfk: "well_formed_row r" if "r \<in> set kept" for r
    using that by (simp add: kept_def)
  have l: "load_ticker files ticker =
     Some (\<lparr>symbol = ticker, asset_type = ''stock''\<rparr>,
           \<lparr>strategy = ''my_strategy'', asset = \<lparr>symbol = ticker, asset_type = ''stock''\<rparr>,
            df = \<lparr>index_name = ''datetime'',
                   columns = [''open'', ''high'', ''low'', ''close'', ''volume''],
                   rows = rs\<rparr>,
            date_start = (2019, 1, 6, 0, 0, 0), date_end = (2019, 12, 15, 0, 0, 0),
            timestep = ''day''\<rparr>)"
    using load_ticker_well_formed [of files ticker "file", OF assms]
    by (simp add: rs_def P_def ds_def de_def body_def)
  have five: "list_all (\<lambda>r. length (snd r) = 5) rs"
    unfolding list_all_iff
  proof
    fix r
    assume "r \<in> set rs"
    then obtain x where "x \<in> set body" and "r = canonical x"
      by (auto simp: rs_def)
    with parse_row_well_formed(2) [OF wfr, of x] show "length (snd r) = 5"
      by simp
  qed
  have sel: "filter (P \<circ> canonical) body = filter (in_horizon ds de) body"
    by (rule filter_cong) (simp_all add: P_def parse_row_well_formed(4) [OF wfr])
  have "mset rs = mset (filter P (map canonical body))"
    by (simp add: rs_def)
  also have "filter P (map canonical body) = map canonical kept"
    by (simp only: filter_map sel kept_def)
  finally have m: "mset rs = mset (map canonical kept)" .
  from m have n: "length rs = length kept"
    by (metis length_map mset_eq_length)
  have srt: "sorted (map fst rs)"
    unfolding rs_def by (rule sorted_filter) (rule sorted_sort_key)
  have strict: "sorted_wrt (<) (map fst rs)" if d: "distinct (map row_date kept)"
  proof -
    have "map row_date kept = map Some (map (fst \<circ> canonical) kept)"
      by (simp add: parse_row_well_formed(3) [OF wfk])
    with d have "distinct (map Some (map (fst \<circ> canonical) kept))"
      by (simp only:)
    then have "distinct (map (fst \<circ> canonical) kept)"
      using distinct_map [of Some "map (fst \<circ> canonical) kept"] by blast
    then have "distinct (map fst (map canonical kept))"
      by (simp only: map_map)
    moreover from m have "mset (map fst rs) = mset (map fst (map canonical kept))"
      by (metis mset_map)
    ultimately have "distinct (map fst rs)"
      by (metis mset_eq_imp_distinct_iff)
    with srt show ?thesis
      by (simp add: strict_sorted_iff)
  qed
  show ?thesis
    using l five m n srt strict by (simp add: ds_def de_def body_def kept_def)
qed

theorem loaded_dataset_shape_witness:
  "[''data/SPY.csv'' \<mapsto> sample_file] (''data/'' @ ''SPY'' @ ''.csv'') = Some sample_file
   \<and> well_formed sample_file
   \<and> \<not> distinct (map row_date (tl sample_file))
   \<and> distinct (map row_date
        (filter (in_horizon (2019, 1, 6, 0, 0, 0) (2019, 12, 15, 0, 0, 0)) (tl sample_file)))
   \<and> (\<exists>d. load_ticker [''data/SPY.csv'' \<mapsto> sample_file] ''SPY'' =
            Some (\<lparr>symbol = ''SPY'', asset_type = ''stock''\<rparr>, d)
         \<and> length (rows (df d)) = 2
         \<and> sorted_wrt (<) (map fst (rows (df d))))"
proof -
  have f: "[''data/SPY.csv'' \<mapsto> sample_file] (''data/'' @ ''SPY'' @ ''.csv'') = Some sample_file"
    by simp
  have w: "well_formed sample_file"
    by (simp add: well_formed_def sample_file_def well_formed_row_def)
  have k: "filter (in_horizon (2019, 1, 6, 0, 0, 0) (2019, 12, 15, 0, 0, 0)) (tl sample_file) =
      [[DateCell (2019, 3, 4, 0, 0, 0), NumCell 281, NumCell 282, NumCell 278, NumCell 279,
        NumCell 277, NumCell 1200],
       [DateCell (2019, 3, 1, 0, 0, 0), NumCell 280, NumCell 281, NumCell 279, NumCell 280,
        NumCell 278, NumCell 1000]]"
    by (simp add: sample_file_def in_horizon_def)
  have nd: "\<not> distinct (map row_date (tl sample_file))"
    by (simp add: sample_file_def row_date_def)
  have d: "distinct (map row_date
        (filter (in_horizon (2019, 1, 6, 0, 0, 0) (2019, 12, 15, 0, 0, 0)) (tl sample_file)))"
    unfolding k by (simp add: row_date_def)
  have n: "length (filter (in_horizon (2019, 1, 6, 0, 0, 0) (2019, 12, 15, 0, 0, 0))
      (tl sample_file)) = 2"
    unfolding k by simp
  from loaded_dataset_shape [of "[''data/SPY.csv'' \<mapsto> sample_file]" "''SPY''" sample_file,
      OF f w] d n f w nd
  show ?thesis
    by auto
qed

text \<open>
  The claim as stated cannot hold for a file in which two rows within the horizon have
  the same date, whatever the constructor of \<^verbatim>\<open>Data\<close> does with the frame: \<^verbatim>\<open>read_csv\<close>
  hands both rows on, two rows of the file lie within the horizon, both of the one date,
  and no dataset whose records carry dates of those rows has two records and strictly
  ascending dates.
\<close>

theorem duplicate_dates_counterexample:
  "well_formed duplicate_file
   \<and> map_option (\<lambda>f. map fst (rows f))
        (read_csv duplicate_file [0, 1, 2, 3, 4, 6]
           [''Date'', ''Open'', ''High'', ''Low'', ''Close'', ''Volume'']) =
       Some [(2019, 3, 1, 0, 0, 0), (2019, 3, 1, 0, 0, 0)]
   \<and> length (filter (in_horizon (2019, 1, 6, 0, 0, 0) (2019, 12, 15, 0, 0, 0))
        (tl duplicate_file)) = 2
   \<and> set (map row_date (filter (in_horizon (2019, 1, 6, 0, 0, 0) (2019, 12, 15, 0, 0, 0))
        (tl duplicate_file))) = {Some (2019, 3, 1, 0, 0, 0)}
   \<and> \<not> (\<exists>rs :: (datetime \<times> cell list) list.
          length rs = length (filter (in_horizon (2019, 1, 6, 0, 0, 0) (2019, 12, 15, 0, 0, 0))
            (tl duplicate_file))
        \<and> set (map (Some \<circ> fst) rs) \<subseteq>
            set (map row_date (filter (in_horizon (2019, 1, 6, 0, 0, 0) (2019, 12, 15, 0, 0, 0))
              (tl duplicate_file)))
        \<and> sorted_wrt (<) (map fst rs))"
proof -
  have w: "well_formed duplicate_file"
    by (simp add: well_formed_def duplicate_file_def well_formed_row_def)
  have k: "filter (in_horizon (2019, 1, 6, 0, 0, 0) (2019, 12, 15, 0, 0, 0)) (tl duplicate_file) =
      tl duplicate_file"
    by (simp add: duplicate_file_def in_horizon_def)
  have n: "length (tl duplicate_file) = 2"
    by (simp add: duplicate_file_def)
  have d: "set (map row_date (tl duplicate_file)) = {Some (2019, 3, 1, 0, 0, 0)}"
    by (simp add: duplicate_file_def row_date_def)
  have c: "map canonical (tl duplicate_file) =
      [((2019, 3, 1, 0, 0, 0), [NumCell 280, NumCell 281, NumCell 279, NumCell 280, NumCell 1000]),
       ((2019, 3, 1, 0, 0, 0), [NumCell 280, NumCell 282, NumCell 279, NumCell 281, NumCell 1100])]"
    by (simp add: duplicate_file_def canonical_def)
  from w have "list_all well_formed_row (tl duplicate_file)"
    by (simp add: well_formed_def duplicate_file_def)
  from parse_rows_well_formed [OF this]
  have r: "read_csv duplicate_file [0, 1, 2, 3, 4, 6]
           [''Date'', ''Open'', ''High'', ''Low'', ''Close'', ''Volume''] =
      Some \<lparr>index_name = ''Date'', columns = [''Open'', ''High'', ''Low'', ''Close'', ''Volume''],
            rows = map canonical (tl duplicate_file)\<rparr>"
    by (simp add: read_csv_def duplicate_file_def del: One_nat_def)
  have no: "\<not> (\<exists>rs :: (datetime \<times> cell list) list. length rs = 2
        \<and> set (map (Some \<circ> fst) rs) \<subseteq> {Some (2019, 3, 1, 0, 0, 0)}
        \<and> sorted_wrt (<) (map fst rs))"
    by (auto simp: length_Suc_conv numeral_2_eq_2)
  show ?thesis
    unfolding k n d r c using w no by simp
qed


end
